theory Spec2Isabelle
  imports
    Complex_Main
    "HOL-Library.Char_ord"
    "HOL-Library.List_Lexorder"
    "HOL-Library.Product_Lexorder"
begin

section \<open>Market data archivist: trade day resolution\<close>

text \<open>
  The module \<^verbatim>\<open>market_archivist.py\<close> stores OHLCV bars and day annotations in
  three SQLite tables. This theory embeds its functions as HOL functions. Python
  exceptions are values of the type \<open>error\<close>; a function that may raise returns
  \<open>error + 'a\<close>.
\<close>

subsection \<open>Local wall-clock time\<close>

text \<open>
  \<^verbatim>\<open>PT_TIMEZONE = ZoneInfo("America/Los_Angeles")\<close> is a table of the time zone
  database, which is not part of the repository. It enters the model as a
  parameter: \<open>utcoffset_at z t\<close> is the offset from UTC, in seconds, in force at the
  instant \<open>t\<close>, and \<open>utcoffset_wall z w\<close> the offset the zone assigns to the naive
  wall-clock reading \<open>w\<close> (seconds since 1970-01-01 00:00:00 on the local clock).
\<close>

record zoneinfo =
  utcoffset_at :: "int \<Rightarrow> int"
  utcoffset_wall :: "int \<Rightarrow> int"

text \<open>
  A \<^verbatim>\<open>datetime\<close> value, as far as the module reads it: the calendar date, kept as
  the number of days since 1970-01-01 (the proleptic Gregorian day count that
  Python's date arithmetic works on), and the time of day. Timestamps are whole
  seconds. Python confines dates to the years 1 to 9999; day numbers here are
  unbounded integers.
\<close>

record datetime =
  dt_date :: int
  dt_hour :: int
  dt_minute :: int
  dt_second :: int

definition get_pt_datetime :: "zoneinfo \<Rightarrow> int \<Rightarrow> datetime" where
  "get_pt_datetime z timestamp =
     (let local = timestamp + utcoffset_at z timestamp;
          sod = local mod 86400
      in \<lparr>dt_date = local div 86400,
          dt_hour = sod div 3600,
          dt_minute = (sod mod 3600) div 60,
          dt_second = sod mod 60\<rparr>)"

text \<open>\<^verbatim>\<open>dt.weekday()\<close>: Monday is 0 and Sunday is 6; 1970-01-01 was a Thursday.\<close>

definition weekday :: "datetime \<Rightarrow> int" where
  "weekday dt = (dt_date dt + 3) mod 7"

definition is_saturday :: "zoneinfo \<Rightarrow> int \<Rightarrow> bool" where
  "is_saturday z timestamp = (weekday (get_pt_datetime z timestamp) = 5)"

definition is_halt_period :: "zoneinfo \<Rightarrow> int \<Rightarrow> bool" where
  "is_halt_period z timestamp = (dt_hour (get_pt_datetime z timestamp) = 14)"

subsection \<open>Calendar dates as text\<close>

text \<open>
  \<^verbatim>\<open>strftime("%Y-%m-%d")\<close> on a date. The day count is turned into year, month and
  day of the Gregorian calendar, and each is printed in decimal, the year padded
  to four digits and month and day to two.
\<close>

definition civil_from_days :: "int \<Rightarrow> int \<times> int \<times> int" where
  "civil_from_days n =
     (let z = n + 719468;
          era = z div 146097;
          doe = z - era * 146097;
          yoe = (doe - doe div 1460 + doe div 36524 - doe div 146096) div 365;
          doy = doe - (365 * yoe + yoe div 4 - yoe div 100);
          mp = (5 * doy + 2) div 153;
          d = doy - (153 * mp + 2) div 5 + 1;
          m = (if mp < 10 then mp + 3 else mp - 9);
          y = yoe + era * 400 + (if m \<le> 2 then 1 else 0)
      in (y, m, d))"

definition digit_char :: "nat \<Rightarrow> char" where
  "digit_char k = char_of (48 + k mod 10)"

fun zero_pad :: "nat \<Rightarrow> nat \<Rightarrow> string" where
  "zero_pad 0 v = []"
| "zero_pad (Suc w) v = zero_pad w (v div 10) @ [digit_char v]"

definition strftime_ymd :: "int \<Rightarrow> string" where
  "strftime_ymd n =
     (case civil_from_days n of
        (y, m, d) \<Rightarrow>
          zero_pad 4 (nat y) @ ''-'' @ zero_pad 2 (nat m) @ ''-'' @ zero_pad 2 (nat d))"

subsection \<open>Errors\<close>

text \<open>
  The exceptions that leave the module's functions. \<open>InvalidSession\<close> is the
  \<^verbatim>\<open>ValueError\<close> raised for Saturday data; its message holds the timestamp, the
  local date and time, and, once \<^verbatim>\<open>ingest_csv\<close> has re-raised it, the path of the
  file. \<open>ParseError\<close> is the \<^verbatim>\<open>ValueError\<close> of \<^verbatim>\<open>float\<close>, \<^verbatim>\<open>strptime\<close> and
  \<^verbatim>\<open>fromisoformat\<close>, whose message quotes the text that did not parse.
  \<open>KeyError\<close> comes from a missing column and carries its name; \<open>TypeError\<close> from
  \<^verbatim>\<open>strptime(None, ...)\<close>.
\<close>

datatype error =
    InvalidSession int datetime "string option"
  | ParseError string
  | KeyError string
  | TypeError

subsection \<open>The resolver\<close>

definition resolve_trade_day :: "zoneinfo \<Rightarrow> int \<Rightarrow> error + string option" where
  "resolve_trade_day z timestamp =
     (if is_saturday z timestamp then
        Inl (InvalidSession timestamp (get_pt_datetime z timestamp) None)
      else if is_halt_period z timestamp then Inr None
      else
        (let dt = get_pt_datetime z timestamp in
         if dt_hour dt \<ge> 15 then Inr (Some (strftime_ymd (dt_date dt + 1)))
         else Inr (Some (strftime_ymd (dt_date dt)))))"

text \<open>A zone with one fixed offset; \<open>pst\<close> is Pacific Standard Time, UTC-8.\<close>

definition fixed_zone :: "int \<Rightarrow> zoneinfo" where
  "fixed_zone off = \<lparr>utcoffset_at = (\<lambda>_. off), utcoffset_wall = (\<lambda>_. off)\<rparr>"

definition pst :: zoneinfo where
  "pst = fixed_zone (- 28800)"

section \<open>The store\<close>

text \<open>
  The three tables of \<^verbatim>\<open>init_database\<close>. A table is the list of its rows in
  rowid order, which is the order of insertion; a \<^verbatim>\<open>SELECT\<close> with \<^verbatim>\<open>fetchone\<close>
  yields the first row of that order that satisfies the \<^verbatim>\<open>WHERE\<close> clause.
  \<^verbatim>\<open>REAL\<close> columns hold real numbers: the rounding of floating-point arithmetic,
  infinities and NaN are outside the model.
\<close>

record trade_day =
  td_id :: int
  td_symbol :: string
  td_session_date :: string
  td_source :: string

text \<open>
  \<^verbatim>\<open>raw_json\<close> is the \<^verbatim>\<open>json.dumps\<close> of a dictionary; the model keeps the
  dictionary.
\<close>

record raw_payload =
  rp_timestamp :: int
  rp_open :: real
  rp_high :: real
  rp_low :: real
  rp_close :: real
  rp_volume :: real
  rp_source_row :: "(string \<times> string) list"

record bar =
  bar_id :: int
  bar_trade_day_id :: "int option"
  bar_timestamp :: int
  bar_open :: real
  bar_high :: real
  bar_low :: real
  bar_close :: real
  bar_volume :: real
  bar_halt_period :: int
  bar_raw_json :: raw_payload

text \<open>
  The \<^verbatim>\<open>tags\<close> column holds the \<^verbatim>\<open>json.dumps\<close> of a list of strings and is read
  back with \<^verbatim>\<open>json.loads\<close>; the model keeps the list.
\<close>

record annotation =
  ann_id :: int
  ann_trade_day_id :: int
  ann_annotation_type :: string
  ann_content :: string
  ann_tags :: "string list"
  ann_source :: string
  ann_created_at :: int
  ann_supersedes_id :: "int option"
  ann_status :: string

record db =
  trade_days :: "trade_day list"
  bars :: "bar list"
  day_annotations :: "annotation list"

text \<open>
  \<^verbatim>\<open>init_database\<close> on a path that holds no database yet: the three tables,
  empty. On an existing database its \<^verbatim>\<open>CREATE TABLE IF NOT EXISTS\<close> statements
  change nothing.
\<close>

definition init_database :: db where
  "init_database = \<lparr>trade_days = [], bars = [], day_annotations = []\<rparr>"

text \<open>
  \<^verbatim>\<open>cursor.lastrowid\<close> after an \<^verbatim>\<open>INSERT\<close> into a table with an
  \<^verbatim>\<open>INTEGER PRIMARY KEY\<close>: one more than the largest id in the table, and 1 in an
  empty table. Ids are unbounded integers.
\<close>

definition next_rowid :: "int list \<Rightarrow> int" where
  "next_rowid ids = (case ids of [] \<Rightarrow> 1 | x # xs \<Rightarrow> fold max xs x + 1)"

text \<open>
  \<^verbatim>\<open>SELECT ... FROM trade_days WHERE symbol = ? AND session_date = ? AND source = ?\<close>
  with \<^verbatim>\<open>fetchone\<close>, the query of \<^verbatim>\<open>get_or_create_trade_day\<close> and of
  \<^verbatim>\<open>get_trade_day\<close>.
\<close>

definition select_trade_day :: "string \<Rightarrow> string \<Rightarrow> string \<Rightarrow> db \<Rightarrow> trade_day option" where
  "select_trade_day symbol session_date source d =
     find (\<lambda>td. td_symbol td = symbol \<and> td_session_date td = session_date
               \<and> td_source td = source) (trade_days d)"

definition get_or_create_trade_day :: "string \<Rightarrow> string \<Rightarrow> string \<Rightarrow> db \<Rightarrow> int \<times> db" where
  "get_or_create_trade_day symbol session_date source d =
     (case select_trade_day symbol session_date source d of
        Some result \<Rightarrow> (td_id result, d)
      | None \<Rightarrow>
          (let trade_day_id = next_rowid (map td_id (trade_days d)) in
           (trade_day_id,
            d\<lparr>trade_days := trade_days d @
                 [\<lparr>td_id = trade_day_id, td_symbol = symbol,
                   td_session_date = session_date, td_source = source\<rparr>]\<rparr>)))"

section \<open>Ingestion\<close>

subsection \<open>Library functions\<close>

text \<open>
  The parsers of the Python library are parameters. \<open>fromisoformat\<close> yields a
  naive wall-clock reading or, when the text carries an offset, an instant;
  \<open>strptime\<close> stands for \<^verbatim>\<open>strptime(s, "%Y-%m-%d %H:%M:%S")\<close> and yields a naive
  reading; both are in whole seconds. \<open>py_float\<close> is \<^verbatim>\<open>float\<close> on a string and
  \<open>py_strip\<close> is \<^verbatim>\<open>str.strip\<close>.
\<close>

datatype parsed_datetime = Naive int | Aware int

record pylib =
  tz :: zoneinfo
  fromisoformat :: "string \<Rightarrow> error + parsed_datetime"
  strptime :: "string \<Rightarrow> error + int"
  py_float :: "string \<Rightarrow> error + real"
  py_strip :: "string \<Rightarrow> string"

text \<open>\<^verbatim>\<open>dt.replace(tzinfo=PT_TIMEZONE).timestamp()\<close> on a naive reading.\<close>

definition pt_timestamp :: "zoneinfo \<Rightarrow> int \<Rightarrow> int" where
  "pt_timestamp z w = w - utcoffset_wall z w"

definition parse_tradingview_timestamp :: "pylib \<Rightarrow> string \<Rightarrow> error + int" where
  "parse_tradingview_timestamp lib time_str =
     (if CHR ''T'' \<in> set time_str then
        (case fromisoformat lib time_str of
           Inl e \<Rightarrow> Inl e
         | Inr (Naive w) \<Rightarrow> Inr (pt_timestamp (tz lib) w)
         | Inr (Aware t) \<Rightarrow> Inr t)
      else
        (case strptime lib time_str of
           Inl e \<Rightarrow> Inl e
         | Inr w \<Rightarrow> Inr (pt_timestamp (tz lib) w)))"

subsection \<open>One record\<close>

text \<open>
  A row of \<^verbatim>\<open>csv.DictReader\<close> is a dictionary from column names to strings, kept
  as an association list. \<open>row_item\<close> is \<^verbatim>\<open>row[key]\<close>.
\<close>

type_synonym csv_row = "(string \<times> string) list"

definition row_item :: "csv_row \<Rightarrow> string \<Rightarrow> error + string" where
  "row_item row key = (case map_of row key of None \<Rightarrow> Inl (KeyError key) | Some v \<Rightarrow> Inr v)"

record parsed_row =
  p_timestamp :: int
  p_open :: real
  p_high :: real
  p_low :: real
  p_close :: real
  p_volume :: real

text \<open>The timestamp of a row, by source (the first statement of the loop body).\<close>

definition row_timestamp :: "pylib \<Rightarrow> string \<Rightarrow> csv_row \<Rightarrow> error + int" where
  "row_timestamp lib source row =
     (if source = ''tradingview'' then
        (case row_item row ''time'' of
           Inl e \<Rightarrow> Inl e
         | Inr s \<Rightarrow> parse_tradingview_timestamp lib s)
      else
        (case (case map_of row ''timestamp'' of Some s \<Rightarrow> Some s | None \<Rightarrow> map_of row ''time'') of
           None \<Rightarrow> Inl TypeError
         | Some time_str \<Rightarrow>
             (case strptime lib time_str of
                Inl e \<Rightarrow> Inl e
              | Inr w \<Rightarrow> Inr (pt_timestamp (tz lib) w))))"

definition row_float :: "pylib \<Rightarrow> csv_row \<Rightarrow> string \<Rightarrow> error + real" where
  "row_float lib row key =
     (case row_item row key of Inl e \<Rightarrow> Inl e | Inr s \<Rightarrow> py_float lib s)"

definition row_volume :: "pylib \<Rightarrow> csv_row \<Rightarrow> error + real" where
  "row_volume lib row =
     (let volume_str =
            py_strip lib
              (case map_of row ''volume'' of
                 Some s \<Rightarrow> s
               | None \<Rightarrow> (case map_of row ''Volume'' of Some s \<Rightarrow> s | None \<Rightarrow> ''0''))
      in if volume_str \<noteq> [] then py_float lib volume_str else Inr 0)"

text \<open>
  An exception ends the evaluation of what follows it: \<open>and_then r f\<close> passes the
  value of \<open>r\<close> on to \<open>f\<close>, or returns the error of \<open>r\<close>.
\<close>

definition and_then :: "error + 'a \<Rightarrow> ('a \<Rightarrow> error + 'b) \<Rightarrow> error + 'b" where
  "and_then r f = (case r of Inl e \<Rightarrow> Inl e | Inr v \<Rightarrow> f v)"

text \<open>Timestamp and OHLCV of a row, parsed in the order of the source.\<close>

definition parse_row :: "pylib \<Rightarrow> string \<Rightarrow> csv_row \<Rightarrow> error + parsed_row" where
  "parse_row lib source row =
     and_then (row_timestamp lib source row) (\<lambda>timestamp.
     and_then (row_float lib row ''open'') (\<lambda>open_price.
     and_then (row_float lib row ''high'') (\<lambda>high_price.
     and_then (row_float lib row ''low'') (\<lambda>low_price.
     and_then (row_float lib row ''close'') (\<lambda>close_price.
     and_then (row_volume lib row) (\<lambda>volume.
       Inr \<lparr>p_timestamp = timestamp, p_open = open_price, p_high = high_price,
            p_low = low_price, p_close = close_price, p_volume = volume\<rparr>))))))"

text \<open>
  \<^verbatim>\<open>resolve_trade_day\<close> inside \<^verbatim>\<open>try ... except ValueError\<close>: the error is raised
  again with the path of the file appended to its message. The Saturday error is
  the only error that \<^verbatim>\<open>resolve_trade_day\<close> raises.
\<close>

definition with_file :: "string \<Rightarrow> error \<Rightarrow> error" where
  "with_file file_path e =
     (case e of InvalidSession t dt _ \<Rightarrow> InvalidSession t dt (Some file_path) | _ \<Rightarrow> e)"

definition resolve_in_file :: "pylib \<Rightarrow> string \<Rightarrow> int \<Rightarrow> error + string option" where
  "resolve_in_file lib file_path timestamp =
     (case resolve_trade_day (tz lib) timestamp of
        Inl e \<Rightarrow> Inl (with_file file_path e)
      | Inr session_date \<Rightarrow> Inr session_date)"

subsection \<open>The report\<close>

record ohlcv =
  ohlcv_open :: real
  ohlcv_high :: real
  ohlcv_low :: real
  ohlcv_close :: real
  ohlcv_volume :: real

record conflict_detail =
  cd_timestamp :: int
  cd_reason :: string
  cd_file :: string
  cd_existing :: ohlcv
  cd_new :: ohlcv

record stats =
  inserted :: nat
  skipped :: nat
  conflicts :: nat
  conflict_details :: "conflict_detail list"

definition empty_stats :: stats where
  "empty_stats = \<lparr>inserted = 0, skipped = 0, conflicts = 0, conflict_details = []\<rparr>"

subsection \<open>Insert, skip or conflict\<close>

text \<open>The \<^verbatim>\<open>SELECT\<close> for an existing bar, for a halt bar and for a bar of a trade day.\<close>

definition existing_bar :: "int option \<Rightarrow> int \<Rightarrow> db \<Rightarrow> bar option" where
  "existing_bar trade_day_id timestamp d =
     (case trade_day_id of
        None \<Rightarrow> find (\<lambda>b. bar_timestamp b = timestamp \<and> bar_halt_period b = 1) (bars d)
      | Some i \<Rightarrow>
          find (\<lambda>b. bar_trade_day_id b = Some i \<and> bar_timestamp b = timestamp) (bars d))"

definition ohlcv_matches :: "bar \<Rightarrow> parsed_row \<Rightarrow> bool" where
  "ohlcv_matches existing p \<longleftrightarrow>
     \<bar>bar_open existing - p_open p\<bar> < 0.001 \<and>
     \<bar>bar_high existing - p_high p\<bar> < 0.001 \<and>
     \<bar>bar_low existing - p_low p\<bar> < 0.001 \<and>
     \<bar>bar_close existing - p_close p\<bar> < 0.001 \<and>
     \<bar>bar_volume existing - p_volume p\<bar> < 0.001"

definition conflict_of :: "string \<Rightarrow> bar \<Rightarrow> parsed_row \<Rightarrow> conflict_detail" where
  "conflict_of file_path existing p =
     \<lparr>cd_timestamp = p_timestamp p,
      cd_reason = ''OHLCV mismatch'',
      cd_file = file_path,
      cd_existing = \<lparr>ohlcv_open = bar_open existing, ohlcv_high = bar_high existing,
                      ohlcv_low = bar_low existing, ohlcv_close = bar_close existing,
                      ohlcv_volume = bar_volume existing\<rparr>,
      cd_new = \<lparr>ohlcv_open = p_open p, ohlcv_high = p_high p, ohlcv_low = p_low p,
                 ohlcv_close = p_close p, ohlcv_volume = p_volume p\<rparr>\<rparr>"

definition new_bar :: "int option \<Rightarrow> parsed_row \<Rightarrow> csv_row \<Rightarrow> db \<Rightarrow> bar" where
  "new_bar trade_day_id p row d =
     \<lparr>bar_id = next_rowid (map bar_id (bars d)),
      bar_trade_day_id = trade_day_id,
      bar_timestamp = p_timestamp p,
      bar_open = p_open p, bar_high = p_high p, bar_low = p_low p,
      bar_close = p_close p, bar_volume = p_volume p,
      bar_halt_period = (if trade_day_id = None then 1 else 0),
      bar_raw_json =
        \<lparr>rp_timestamp = p_timestamp p, rp_open = p_open p, rp_high = p_high p,
         rp_low = p_low p, rp_close = p_close p, rp_volume = p_volume p,
         rp_source_row = row\<rparr>\<rparr>"

text \<open>
  The second half of the loop body of \<^verbatim>\<open>ingest_csv\<close>, from the \<^verbatim>\<open>SELECT\<close> for
  an existing bar to the \<^verbatim>\<open>INSERT\<close>. A halt bar has no trade day
  (\<open>trade_day_id = None\<close>), and only a halt bar has none.
\<close>

definition store_bar ::
  "string \<Rightarrow> int option \<Rightarrow> parsed_row \<Rightarrow> csv_row \<Rightarrow> stats \<times> db \<Rightarrow> stats \<times> db" where
  "store_bar file_path trade_day_id p row sd =
     (case sd of (st, d) \<Rightarrow>
        (case existing_bar trade_day_id (p_timestamp p) d of
           Some existing \<Rightarrow>
             if ohlcv_matches existing p then (st\<lparr>skipped := skipped st + 1\<rparr>, d)
             else
               (st\<lparr>conflicts := conflicts st + 1,
                   conflict_details := conflict_details st @ [conflict_of file_path existing p]\<rparr>,
                d)
         | None \<Rightarrow>
             (st\<lparr>inserted := inserted st + 1\<rparr>,
              d\<lparr>bars := bars d @ [new_bar trade_day_id p row d]\<rparr>)))"

text \<open>The trade day of a bar: none for a halt bar, looked up or created otherwise.\<close>

definition bar_trade_day :: "string \<Rightarrow> string \<Rightarrow> string option \<Rightarrow> db \<Rightarrow> int option \<times> db" where
  "bar_trade_day symbol source session_date d =
     (case session_date of
        None \<Rightarrow> (None, d)
      | Some date \<Rightarrow>
          (case get_or_create_trade_day symbol date source d of
             (trade_day_id, d') \<Rightarrow> (Some trade_day_id, d')))"

text \<open>The loop body of \<^verbatim>\<open>ingest_csv\<close> on one row.\<close>

definition ingest_row ::
  "pylib \<Rightarrow> string \<Rightarrow> string \<Rightarrow> string \<Rightarrow> csv_row \<Rightarrow> stats \<times> db \<Rightarrow> error + stats \<times> db" where
  "ingest_row lib file_path symbol source row sd =
     and_then (parse_row lib source row) (\<lambda>p.
     and_then (resolve_in_file lib file_path (p_timestamp p)) (\<lambda>session_date.
       (case bar_trade_day symbol source session_date (snd sd) of
          (trade_day_id, d') \<Rightarrow> Inr (store_bar file_path trade_day_id p row (fst sd, d')))))"

fun ingest_rows ::
  "pylib \<Rightarrow> string \<Rightarrow> string \<Rightarrow> string \<Rightarrow> csv_row list \<Rightarrow> stats \<times> db \<Rightarrow> error + stats \<times> db" where
  "ingest_rows lib file_path symbol source [] sd = Inr sd"
| "ingest_rows lib file_path symbol source (row # rows) sd =
     and_then (ingest_row lib file_path symbol source row sd)
       (ingest_rows lib file_path symbol source rows)"

text \<open>
  \<^verbatim>\<open>ingest_csv\<close>. \<open>rows\<close> are the rows that \<^verbatim>\<open>csv.DictReader\<close> reads from the file
  at \<open>file_path\<close>. The connection's writes are pending until \<^verbatim>\<open>conn.commit()\<close>,
  the statement after the loop: when an exception leaves the loop the commit is
  not reached and the pending writes are discarded with the connection. The
  function returns the report or the error, and the committed database.
  \<open>timeframe\<close> is not used by the source.
\<close>

definition ingest_csv ::
  "pylib \<Rightarrow> csv_row list \<Rightarrow> string \<Rightarrow> string \<Rightarrow> string \<Rightarrow> string \<Rightarrow> db \<Rightarrow> (error + stats) \<times> db" where
  "ingest_csv lib rows file_path symbol timeframe source d =
     (case ingest_rows lib file_path symbol source rows (empty_stats, d) of
        Inl e \<Rightarrow> (Inl e, d)
      | Inr (st, d') \<Rightarrow> (Inr st, d'))"

section \<open>Annotations\<close>

text \<open>Python's truth test on an optional string, list or integer argument.\<close>

definition truthy :: "'a list option \<Rightarrow> bool" where
  "truthy v = (case v of None \<Rightarrow> False | Some xs \<Rightarrow> xs \<noteq> [])"

definition truthy_int :: "int option \<Rightarrow> bool" where
  "truthy_int v = (case v of None \<Rightarrow> False | Some i \<Rightarrow> i \<noteq> 0)"

text \<open>\<^verbatim>\<open>UPDATE day_annotations SET status = 'superseded' WHERE id = ?\<close>\<close>

definition mark_superseded :: "int \<Rightarrow> annotation list \<Rightarrow> annotation list" where
  "mark_superseded i anns =
     map (\<lambda>a. if ann_id a = i then a\<lparr>ann_status := ''superseded''\<rparr> else a) anns"

text \<open>
  \<^verbatim>\<open>save_day_annotation\<close>. \<open>now\<close> is the reading of the clock that becomes
  \<^verbatim>\<open>created_at\<close>. Insert and update are committed together by the one
  \<^verbatim>\<open>conn.commit()\<close> at the end; the function returns the new id and the committed
  database.
\<close>

definition save_day_annotation ::
  "string \<Rightarrow> string \<Rightarrow> string \<Rightarrow> string \<Rightarrow> string list option \<Rightarrow> string \<Rightarrow> int option
     \<Rightarrow> int \<Rightarrow> db \<Rightarrow> int \<times> db" where
  "save_day_annotation symbol session_date content annotation_type tags source supersedes_id now d =
     (case get_or_create_trade_day symbol session_date ''tradingview'' d of
        (trade_day_id, d1) \<Rightarrow>
          (let tags_json = (if truthy tags then the tags else []);
               created_at = now;
               annotation_id = next_rowid (map ann_id (day_annotations d1));
               d2 = d1\<lparr>day_annotations := day_annotations d1 @
                      [\<lparr>ann_id = annotation_id, ann_trade_day_id = trade_day_id,
                        ann_annotation_type = annotation_type, ann_content = content,
                        ann_tags = tags_json, ann_source = source,
                        ann_created_at = created_at, ann_supersedes_id = supersedes_id,
                        ann_status = ''active''\<rparr>]\<rparr>;
               d3 = (if truthy_int supersedes_id
                     then d2\<lparr>day_annotations :=
                              mark_superseded (the supersedes_id) (day_annotations d2)\<rparr>
                     else d2)
           in (annotation_id, d3)))"

section \<open>Queries\<close>

subsection \<open>Bars\<close>

record bar_result =
  br_id :: int
  br_timestamp :: int
  br_open :: real
  br_high :: real
  br_low :: real
  br_close :: real
  br_volume :: real
  br_halt_period :: bool
  br_session_date :: "string option"
  br_raw_json :: raw_payload

text \<open>
  \<^verbatim>\<open>FROM bars b LEFT JOIN trade_days td ON b.trade_day_id = td.id\<close>: every bar
  paired with each trade day of its \<^verbatim>\<open>trade_day_id\<close>, and with \<open>None\<close> (a row of
  \<^verbatim>\<open>NULL\<close>s) when there is none.
\<close>

definition join_bar :: "trade_day list \<Rightarrow> bar \<Rightarrow> (bar \<times> trade_day option) list" where
  "join_bar tds b =
     (case filter (\<lambda>td. bar_trade_day_id b = Some (td_id td)) tds of
        [] \<Rightarrow> [(b, None)]
      | ms \<Rightarrow> map (\<lambda>td. (b, Some td)) ms)"

definition bars_left_join :: "db \<Rightarrow> (bar \<times> trade_day option) list" where
  "bars_left_join d = concat (map (join_bar (trade_days d)) (bars d))"

text \<open>
  The \<^verbatim>\<open>WHERE\<close> clause that \<^verbatim>\<open>get_bars\<close> builds. A comparison with a \<^verbatim>\<open>NULL\<close>
  column is not true, so a row without a trade day fails it.
\<close>

definition bars_where ::
  "string \<Rightarrow> string option \<Rightarrow> string option \<Rightarrow> string option \<Rightarrow> bool \<Rightarrow> string
     \<Rightarrow> bar \<times> trade_day option \<Rightarrow> bool" where
  "bars_where symbol session_date start_date end_date include_halt source r =
     (case r of
        (b, None) \<Rightarrow> False
      | (b, Some td) \<Rightarrow>
          td_symbol td = symbol \<and> td_source td = source \<and>
          (if truthy session_date then td_session_date td = the session_date
           else if truthy start_date \<and> truthy end_date
             then td_session_date td \<ge> the start_date \<and> td_session_date td \<le> the end_date
           else True) \<and>
          (if \<not> include_halt then bar_halt_period b = 0 else True))"

definition bar_result_of :: "bar \<times> trade_day option \<Rightarrow> bar_result" where
  "bar_result_of r =
     (case r of (b, td) \<Rightarrow>
        \<lparr>br_id = bar_id b, br_timestamp = bar_timestamp b,
         br_open = bar_open b, br_high = bar_high b, br_low = bar_low b,
         br_close = bar_close b, br_volume = bar_volume b,
         br_halt_period = (bar_halt_period b \<noteq> 0),
         br_session_date = map_option td_session_date td,
         br_raw_json = bar_raw_json b\<rparr>)"

text \<open>
  The rows the query of \<^verbatim>\<open>get_bars\<close> selects, \<^verbatim>\<open>ORDER BY b.timestamp\<close> (rows of
  equal timestamp stay in table order), and the dictionaries made of them.
\<close>

definition get_bars_rows ::
  "string \<Rightarrow> string option \<Rightarrow> string option \<Rightarrow> string option \<Rightarrow> bool \<Rightarrow> string \<Rightarrow> db
     \<Rightarrow> (bar \<times> trade_day option) list" where
  "get_bars_rows symbol session_date start_date end_date include_halt source d =
     sort_key (\<lambda>r. bar_timestamp (fst r))
       (filter (bars_where symbol session_date start_date end_date include_halt source)
          (bars_left_join d))"

definition get_bars ::
  "string \<Rightarrow> string option \<Rightarrow> string option \<Rightarrow> string option \<Rightarrow> string option \<Rightarrow> bool
     \<Rightarrow> string \<Rightarrow> db \<Rightarrow> bar_result list" where
  "get_bars symbol session_date start_date end_date timeframe include_halt source d =
     map bar_result_of
       (get_bars_rows symbol session_date start_date end_date include_halt source d)"

subsection \<open>Day annotations\<close>

record annotation_result =
  ar_id :: int
  ar_session_date :: string
  ar_annotation_type :: string
  ar_content :: string
  ar_tags :: "string list"
  ar_source :: string
  ar_created_at :: int
  ar_supersedes_id :: "int option"
  ar_status :: string

text \<open>\<^verbatim>\<open>FROM day_annotations da JOIN trade_days td ON da.trade_day_id = td.id\<close>\<close>

definition join_annotation :: "trade_day list \<Rightarrow> annotation \<Rightarrow> (annotation \<times> trade_day) list" where
  "join_annotation tds a =
     map (\<lambda>td. (a, td)) (filter (\<lambda>td. ann_trade_day_id a = td_id td) tds)"

definition annotations_join :: "db \<Rightarrow> (annotation \<times> trade_day) list" where
  "annotations_join d = concat (map (join_annotation (trade_days d)) (day_annotations d))"

definition annotations_where ::
  "string \<Rightarrow> string \<Rightarrow> string \<Rightarrow> string \<Rightarrow> string option \<Rightarrow> annotation \<times> trade_day \<Rightarrow> bool" where
  "annotations_where symbol start_date end_date status annotation_type r =
     (case r of (a, td) \<Rightarrow>
        td_symbol td = symbol \<and> td_session_date td \<ge> start_date \<and>
        td_session_date td \<le> end_date \<and>
        (if status \<noteq> ''all'' then ann_status a = status else True) \<and>
        (if truthy annotation_type then ann_annotation_type a = the annotation_type else True))"

text \<open>
  The rows of the query, \<^verbatim>\<open>ORDER BY td.session_date, da.created_at\<close> (rows of equal
  key stay in table order).
\<close>

definition annotation_rows ::
  "string \<Rightarrow> string \<Rightarrow> string \<Rightarrow> string \<Rightarrow> string option \<Rightarrow> db \<Rightarrow> (annotation \<times> trade_day) list" where
  "annotation_rows symbol start_date end_date status annotation_type d =
     sort_key (\<lambda>r. (td_session_date (snd r), ann_created_at (fst r)))
       (filter (annotations_where symbol start_date end_date status annotation_type)
          (annotations_join d))"

text \<open>The test of the loop over the rows: \<^verbatim>\<open>any(tag in row_tags for tag in tags)\<close>.\<close>

definition tags_match :: "string list option \<Rightarrow> annotation \<times> trade_day \<Rightarrow> bool" where
  "tags_match tags r =
     (if truthy tags then list_ex (\<lambda>tag. tag \<in> set (ann_tags (fst r))) (the tags) else True)"

definition annotation_result_of :: "annotation \<times> trade_day \<Rightarrow> annotation_result" where
  "annotation_result_of r =
     (case r of (a, td) \<Rightarrow>
        \<lparr>ar_id = ann_id a, ar_session_date = td_session_date td,
         ar_annotation_type = ann_annotation_type a, ar_content = ann_content a,
         ar_tags = ann_tags a, ar_source = ann_source a,
         ar_created_at = ann_created_at a, ar_supersedes_id = ann_supersedes_id a,
         ar_status = ann_status a\<rparr>)"

definition get_day_annotations ::
  "string \<Rightarrow> string \<Rightarrow> string \<Rightarrow> string list option \<Rightarrow> string \<Rightarrow> string option \<Rightarrow> db
     \<Rightarrow> annotation_result list" where
  "get_day_annotations symbol start_date end_date tags status annotation_type d =
     map annotation_result_of
       (filter (tags_match tags)
          (annotation_rows symbol start_date end_date status annotation_type d))"

definition get_trade_day :: "string \<Rightarrow> string \<Rightarrow> string \<Rightarrow> db \<Rightarrow> trade_day option" where
  "get_trade_day symbol session_date source d = select_trade_day symbol session_date source d"

section \<open>A library instance for concrete runs\<close>

text \<open>
  A small instance of the library parameters, used to run the functions on
  concrete rows. It reads unsigned decimal numbers and timestamps of the form
  \<^verbatim>\<open>YYYY-MM-DD HH:MM:SS\<close> (or with \<^verbatim>\<open>T\<close> between date and time) the way Python
  does, and rejects every other text with a \<open>ParseError\<close>; its zone is \<open>pst\<close>.
\<close>

definition digit_of :: "char \<Rightarrow> nat option" where
  "digit_of c =
     (let n = (of_char c :: nat) in if 48 \<le> n \<and> n \<le> 57 then Some (n - 48) else None)"

fun digits_value :: "nat \<Rightarrow> string \<Rightarrow> nat option" where
  "digits_value acc [] = Some acc"
| "digits_value acc (c # cs) =
     (case digit_of c of None \<Rightarrow> None | Some k \<Rightarrow> digits_value (10 * acc + k) cs)"

definition parse_nat :: "string \<Rightarrow> nat option" where
  "parse_nat s = (if s = [] then None else digits_value 0 s)"

definition decimal_float :: "string \<Rightarrow> error + real" where
  "decimal_float s =
     (let whole = takeWhile (\<lambda>c. c \<noteq> CHR ''.'') s;
          rest = dropWhile (\<lambda>c. c \<noteq> CHR ''.'') s
      in case parse_nat whole of
           None \<Rightarrow> Inl (ParseError s)
         | Some i \<Rightarrow>
             if rest = [] then Inr (real i)
             else (case parse_nat (tl rest) of
                     None \<Rightarrow> Inl (ParseError s)
                   | Some f \<Rightarrow> Inr (real i + real f / 10 ^ length (tl rest))))"

definition days_from_civil :: "int \<Rightarrow> int \<Rightarrow> int \<Rightarrow> int" where
  "days_from_civil y m d =
     (let y' = (if m \<le> 2 then y - 1 else y);
          era = y' div 400;
          yoe = y' - era * 400;
          doy = (153 * (if m > 2 then m - 3 else m + 9) + 2) div 5 + d - 1;
          doe = yoe * 365 + yoe div 4 - yoe div 100 + doy
      in era * 146097 + doe - 719468)"

definition wall_clock :: "char \<Rightarrow> string \<Rightarrow> error + int" where
  "wall_clock sep s =
     (if length s = 19 \<and> s ! 4 = CHR ''-'' \<and> s ! 7 = CHR ''-'' \<and> s ! 10 = sep
         \<and> s ! 13 = CHR '':'' \<and> s ! 16 = CHR '':'' then
        (case (parse_nat (take 4 s), parse_nat (take 2 (drop 5 s)),
               parse_nat (take 2 (drop 8 s)), parse_nat (take 2 (drop 11 s)),
               parse_nat (take 2 (drop 14 s)), parse_nat (take 2 (drop 17 s))) of
           (Some y, Some m, Some d, Some hh, Some mm, Some ss) \<Rightarrow>
             if 1 \<le> m \<and> m \<le> 12 \<and> 1 \<le> d \<and> d \<le> 31 \<and> hh < 24 \<and> mm < 60 \<and> ss < 60
             then Inr (days_from_civil (int y) (int m) (int d) * 86400
                       + int hh * 3600 + int mm * 60 + int ss)
             else Inl (ParseError s)
         | _ \<Rightarrow> Inl (ParseError s))
      else Inl (ParseError s))"

definition strip_spaces :: "string \<Rightarrow> string" where
  "strip_spaces s =
     rev (dropWhile (\<lambda>c. c = CHR '' '') (rev (dropWhile (\<lambda>c. c = CHR '' '') s)))"

definition sample_lib :: pylib where
  "sample_lib =
     \<lparr>tz = pst,
      fromisoformat = (\<lambda>s. case wall_clock CHR ''T'' s of Inl e \<Rightarrow> Inl e | Inr w \<Rightarrow> Inr (Naive w)),
      strptime = wall_clock CHR '' '',
      py_float = decimal_float,
      py_strip = strip_spaces\<rparr>"

text \<open>Rows of a TradingView export: Monday 2024-01-08, 13:00 and 14:30 local time.\<close>

definition sample_row :: "string \<Rightarrow> string \<Rightarrow> csv_row" where
  "sample_row time_str close_str =
     [(''time'', time_str), (''open'', ''17000''), (''high'', ''17010.5''),
      (''low'', ''16990.25''), (''close'', close_str), (''Volume'', ''120'')]"

definition row_monday :: csv_row where
  "row_monday = sample_row ''2024-01-08 13:00:00'' ''17005''"

definition row_monday_revised :: csv_row where
  "row_monday_revised = sample_row ''2024-01-08 13:00:00'' ''17006''"

definition row_halt :: csv_row where
  "row_halt = sample_row ''2024-01-08 14:30:00'' ''17005''"

definition row_saturday :: csv_row where
  "row_saturday = sample_row ''2024-01-13 12:00:00'' ''17005''"

definition row_malformed :: csv_row where
  "row_malformed = sample_row ''2024-01-08 13:01:00'' ''abc''"

section \<open>Notions used in the statements\<close>

text \<open>
  The key of a trade day, which the schema declares \<^verbatim>\<open>UNIQUE\<close>.
\<close>

definition td_key :: "trade_day \<Rightarrow> string \<times> string \<times> string" where
  "td_key td = (td_symbol td, td_session_date td, td_source td)"

text \<open>
  \<open>appends_to d d'\<close>: the store \<open>d'\<close> holds the trade days and bars of \<open>d\<close>, unchanged
  and in the same order, followed by new ones, and the same annotations.
\<close>

definition appends_to :: "db \<Rightarrow> db \<Rightarrow> bool" where
  "appends_to d d' \<longleftrightarrow>
     (\<exists>tds bs. trade_days d' = trade_days d @ tds \<and> bars d' = bars d @ bs)
     \<and> day_annotations d' = day_annotations d"

text \<open>
  A record that stops the ingestion: it does not parse, or it parses to a
  Saturday. Whether it does depends on the record alone, not on the store.
\<close>

definition row_fails :: "pylib \<Rightarrow> string \<Rightarrow> csv_row \<Rightarrow> bool" where
  "row_fails lib source row \<longleftrightarrow>
     (case parse_row lib source row of
        Inl e \<Rightarrow> True
      | Inr p \<Rightarrow> is_saturday (tz lib) (p_timestamp p))"

text \<open>
  What the schema says of the ids: \<^verbatim>\<open>trade_days.id\<close> is a primary key, and
  \<^verbatim>\<open>day_annotations.trade_day_id\<close> refers to a row of \<^verbatim>\<open>trade_days\<close>; and
  the ids of annotations are positive, as the row ids that SQLite assigns are.
  The empty store satisfies this, and \<open>ingest_csv\<close> and \<open>save_day_annotation\<close>
  keep it, as the section on the consistency of the store shows.
\<close>

definition db_consistent :: "db \<Rightarrow> bool" where
  "db_consistent d \<longleftrightarrow>
     distinct (map td_id (trade_days d))
     \<and> (\<forall>a\<in>set (day_annotations d). ann_trade_day_id a \<in> td_id ` set (trade_days d))
     \<and> (\<forall>a\<in>set (day_annotations d). 0 < ann_id a)"

text \<open>
  The \<^verbatim>\<open>UPDATE\<close> of \<open>mark_superseded\<close> on one row, and the row that
  \<^verbatim>\<open>save_day_annotation\<close> inserts.
\<close>

definition mark_one :: "int \<Rightarrow> annotation \<Rightarrow> annotation" where
  "mark_one i a = (if ann_id a = i then a\<lparr>ann_status := ''superseded''\<rparr> else a)"

definition new_annotation ::
  "int \<Rightarrow> int \<Rightarrow> string \<Rightarrow> string \<Rightarrow> string list option \<Rightarrow> string \<Rightarrow> int option \<Rightarrow> int
     \<Rightarrow> annotation" where
  "new_annotation i tid content ty tags source sid now =
     \<lparr>ann_id = i, ann_trade_day_id = tid, ann_annotation_type = ty, ann_content = content,
      ann_tags = (if truthy tags then the tags else []), ann_source = source,
      ann_created_at = now, ann_supersedes_id = sid, ann_status = ''active''\<rparr>"

section \<open>Sample data\<close>

text \<open>
  The rows of the library instance above, parsed, and the stores that ingesting
  them and annotating their trade day lead to.
\<close>

definition parsed_monday :: parsed_row where
  "parsed_monday = \<lparr>p_timestamp = 1704747600, p_open = 17000, p_high = 17010.5,
     p_low = 16990.25, p_close = 17005, p_volume = 120\<rparr>"

definition parsed_revised :: parsed_row where
  "parsed_revised = \<lparr>p_timestamp = 1704747600, p_open = 17000, p_high = 17010.5,
     p_low = 16990.25, p_close = 17006, p_volume = 120\<rparr>"

definition parsed_halt :: parsed_row where
  "parsed_halt = \<lparr>p_timestamp = 1704753000, p_open = 17000, p_high = 17010.5,
     p_low = 16990.25, p_close = 17005, p_volume = 120\<rparr>"

definition parsed_saturday :: parsed_row where
  "parsed_saturday = \<lparr>p_timestamp = 1705176000, p_open = 17000, p_high = 17010.5,
     p_low = 16990.25, p_close = 17005, p_volume = 120\<rparr>"

definition monday_session :: trade_day where
  "monday_session = \<lparr>td_id = 1, td_symbol = ''MNQ'', td_session_date = ''2024-01-08'',
     td_source = ''tradingview''\<rparr>"

definition monday_bar :: bar where
  "monday_bar = \<lparr>bar_id = 1, bar_trade_day_id = Some 1, bar_timestamp = 1704747600,
     bar_open = 17000, bar_high = 17010.5, bar_low = 16990.25, bar_close = 17005,
     bar_volume = 120, bar_halt_period = 0,
     bar_raw_json = \<lparr>rp_timestamp = 1704747600, rp_open = 17000, rp_high = 17010.5,
       rp_low = 16990.25, rp_close = 17005, rp_volume = 120, rp_source_row = row_monday\<rparr>\<rparr>"

definition halt_bar :: bar where
  "halt_bar = \<lparr>bar_id = 2, bar_trade_day_id = None, bar_timestamp = 1704753000,
     bar_open = 17000, bar_high = 17010.5, bar_low = 16990.25, bar_close = 17005,
     bar_volume = 120, bar_halt_period = 1,
     bar_raw_json = \<lparr>rp_timestamp = 1704753000, rp_open = 17000, rp_high = 17010.5,
       rp_low = 16990.25, rp_close = 17005, rp_volume = 120, rp_source_row = row_halt\<rparr>\<rparr>"

definition db_session :: db where
  "db_session = \<lparr>trade_days = [monday_session], bars = [], day_annotations = []\<rparr>"

definition db_monday :: db where
  "db_monday = \<lparr>trade_days = [monday_session], bars = [monday_bar], day_annotations = []\<rparr>"

definition db_halt :: db where
  "db_halt = \<lparr>trade_days = [monday_session], bars = [monday_bar, halt_bar], day_annotations = []\<rparr>"

definition note_a :: annotation where
  "note_a = \<lparr>ann_id = 1, ann_trade_day_id = 1, ann_annotation_type = ''observation'',
     ann_content = ''Test observation'', ann_tags = [''momentum'', ''trend_day''],
     ann_source = ''manual'', ann_created_at = 5, ann_supersedes_id = None,
     ann_status = ''active''\<rparr>"

definition note_b :: annotation where
  "note_b = \<lparr>ann_id = 2, ann_trade_day_id = 1, ann_annotation_type = ''observation'',
     ann_content = ''Updated observation'', ann_tags = [''updated''],
     ann_source = ''manual'', ann_created_at = 6, ann_supersedes_id = Some 1,
     ann_status = ''active''\<rparr>"

definition db_noted :: db where
  "db_noted = \<lparr>trade_days = [monday_session], bars = [], day_annotations = [note_a]\<rparr>"

definition db_superseded :: db where
  "db_superseded = \<lparr>trade_days = [monday_session], bars = [],
     day_annotations = [note_a\<lparr>ann_status := ''superseded''\<rparr>, note_b]\<rparr>"

definition result_a :: annotation_result where
  "result_a = \<lparr>ar_id = 1, ar_session_date = ''2024-01-08'',
     ar_annotation_type = ''observation'', ar_content = ''Test observation'',
     ar_tags = [''momentum'', ''trend_day''], ar_source = ''manual'', ar_created_at = 5,
     ar_supersedes_id = None, ar_status = ''active''\<rparr>"

definition result_b :: annotation_result where
  "result_b = \<lparr>ar_id = 2, ar_session_date = ''2024-01-08'',
     ar_annotation_type = ''observation'', ar_content = ''Updated observation'',
     ar_tags = [''updated''], ar_source = ''manual'', ar_created_at = 6,
     ar_supersedes_id = Some 1, ar_status = ''active''\<rparr>"

section \<open>Properties of the resolver\<close>

lemma get_pt_datetime_hour_range:
  "0 \<le> dt_hour (get_pt_datetime z t) \<and> dt_hour (get_pt_datetime z t) < 24"
proof -
  define s where "s = (t + utcoffset_at z t) mod 86400"
  have s: "0 \<le> s" "s \<le> 86399" by (simp_all add: s_def)
  from s(1) have lo: "0 \<le> s div 3600" by (simp add: pos_imp_zdiv_nonneg_iff)
  from s(2) have "s div 3600 \<le> 86399 div 3600" by (rule zdiv_mono1) simp
  then have hi: "s div 3600 < 24" by simp
  from lo hi show ?thesis by (simp add: get_pt_datetime_def Let_def s_def)
qed

text \<open>
  Claim C1. On every instant whose local weekday is not Saturday the resolver
  goes by the local hour: from 15 to 23 it returns the local date plus one day,
  from 0 to 13 the local date, and at hour 14 it returns \<open>None\<close>, the halt marker.
  By \<open>get_pt_datetime_hour_range\<close> the three cases cover every instant.
\<close>

theorem resolve_trade_day_by_hour:
  assumes "weekday (get_pt_datetime z t) \<noteq> 5"
  shows "(15 \<le> dt_hour (get_pt_datetime z t) \<and> dt_hour (get_pt_datetime z t) < 24 \<longrightarrow>
            resolve_trade_day z t = Inr (Some (strftime_ymd (dt_date (get_pt_datetime z t) + 1))))
       \<and> (0 \<le> dt_hour (get_pt_datetime z t) \<and> dt_hour (get_pt_datetime z t) < 14 \<longrightarrow>
            resolve_trade_day z t = Inr (Some (strftime_ymd (dt_date (get_pt_datetime z t)))))
       \<and> (dt_hour (get_pt_datetime z t) = 14 \<longrightarrow> resolve_trade_day z t = Inr None)"
  using assms by (simp add: resolve_trade_day_def is_saturday_def is_halt_period_def Let_def)

text \<open>
  The three cases at Sunday 2024-01-07 15:00, Monday 2024-01-08 13:00 and Monday
  2024-01-08 14:30, Pacific Standard Time.
\<close>

theorem resolve_trade_day_by_hour_witness:
  "weekday (get_pt_datetime pst 1704668400) \<noteq> 5
   \<and> dt_hour (get_pt_datetime pst 1704668400) = 15
   \<and> resolve_trade_day pst 1704668400 = Inr (Some ''2024-01-08'')
   \<and> weekday (get_pt_datetime pst 1704747600) \<noteq> 5
   \<and> dt_hour (get_pt_datetime pst 1704747600) = 13
   \<and> resolve_trade_day pst 1704747600 = Inr (Some ''2024-01-08'')
   \<and> weekday (get_pt_datetime pst 1704753000) \<noteq> 5
   \<and> dt_hour (get_pt_datetime pst 1704753000) = 14
   \<and> resolve_trade_day pst 1704753000 = Inr None"
proof -
  have w1: "weekday (get_pt_datetime pst 1704668400) \<noteq> 5" by code_simp
  have h1: "dt_hour (get_pt_datetime pst 1704668400) = 15" by code_simp
  have s1: "strftime_ymd (dt_date (get_pt_datetime pst 1704668400) + 1) = ''2024-01-08''"
    by code_simp
  have w2: "weekday (get_pt_datetime pst 1704747600) \<noteq> 5" by code_simp
  have h2: "dt_hour (get_pt_datetime pst 1704747600) = 13" by code_simp
  have s2: "strftime_ymd (dt_date (get_pt_datetime pst 1704747600)) = ''2024-01-08''"
    by code_simp
  have w3: "weekday (get_pt_datetime pst 1704753000) \<noteq> 5" by code_simp
  have h3: "dt_hour (get_pt_datetime pst 1704753000) = 14" by code_simp
  from resolve_trade_day_by_hour [OF w1] h1 s1
  have r1: "resolve_trade_day pst 1704668400 = Inr (Some ''2024-01-08'')" by simp
  from resolve_trade_day_by_hour [OF w2] h2 s2
  have r2: "resolve_trade_day pst 1704747600 = Inr (Some ''2024-01-08'')" by simp
  from resolve_trade_day_by_hour [OF w3] h3
  have r3: "resolve_trade_day pst 1704753000 = Inr None" by simp
  from w1 h1 r1 w2 h2 r2 w3 h3 r3 show ?thesis by blast
qed

text \<open>
  Claim C5. On every instant whose local weekday is Saturday the resolver raises
  the error of an invalid session, whatever the hour: the Saturday test comes
  before the halt test, so the hour is never looked at.
\<close>

theorem resolve_trade_day_saturday:
  assumes "weekday (get_pt_datetime z t) = 5"
  shows "resolve_trade_day z t = Inl (InvalidSession t (get_pt_datetime z t) None)"
  using assms by (simp add: resolve_trade_day_def is_saturday_def)

text \<open>Saturday 2024-01-13 at 14:30, inside the halt hour, and at 00:00.\<close>

theorem resolve_trade_day_saturday_witness:
  "weekday (get_pt_datetime pst 1705185000) = 5
   \<and> is_halt_period pst 1705185000
   \<and> resolve_trade_day pst 1705185000 =
       Inl (InvalidSession 1705185000
             \<lparr>dt_date = 19735, dt_hour = 14, dt_minute = 30, dt_second = 0\<rparr> None)
   \<and> weekday (get_pt_datetime pst 1705132800) = 5
   \<and> dt_hour (get_pt_datetime pst 1705132800) = 0
   \<and> resolve_trade_day pst 1705132800 =
       Inl (InvalidSession 1705132800
             \<lparr>dt_date = 19735, dt_hour = 0, dt_minute = 0, dt_second = 0\<rparr> None)"
proof -
  have w1: "weekday (get_pt_datetime pst 1705185000) = 5" by code_simp
  have h1: "is_halt_period pst 1705185000" by code_simp
  have d1: "get_pt_datetime pst 1705185000 =
      \<lparr>dt_date = 19735, dt_hour = 14, dt_minute = 30, dt_second = 0\<rparr>" by code_simp
  have w2: "weekday (get_pt_datetime pst 1705132800) = 5" by code_simp
  have h2: "dt_hour (get_pt_datetime pst 1705132800) = 0" by code_simp
  have d2: "get_pt_datetime pst 1705132800 =
      \<lparr>dt_date = 19735, dt_hour = 0, dt_minute = 0, dt_second = 0\<rparr>" by code_simp
  from resolve_trade_day_saturday [OF w1] d1
  have r1: "resolve_trade_day pst 1705185000 =
       Inl (InvalidSession 1705185000
             \<lparr>dt_date = 19735, dt_hour = 14, dt_minute = 30, dt_second = 0\<rparr> None)" by simp
  from resolve_trade_day_saturday [OF w2] d2
  have r2: "resolve_trade_day pst 1705132800 =
       Inl (InvalidSession 1705132800
             \<lparr>dt_date = 19735, dt_hour = 0, dt_minute = 0, dt_second = 0\<rparr> None)" by simp
  from w1 h1 r1 w2 h2 r2 show ?thesis by blast
qed

section \<open>Row ids and lookups\<close>

lemma fold_max_ge: "(x::int) \<le> fold max xs x"
  by (induction xs arbitrary: x) (auto intro: order_trans [OF max.cobounded2])

lemma fold_max_mem: "y \<in> set xs \<Longrightarrow> (y::int) \<le> fold max xs x"
proof (induction xs arbitrary: x)
  case Nil
  then show ?case by simp
next
  case (Cons a xs)
  show ?case
  proof (cases "y = a")
    case True
    have "a \<le> max a x" by simp
    also have "\<dots> \<le> fold max xs (max a x)" by (rule fold_max_ge)
    finally show ?thesis using True by simp
  next
    case False
    with Cons.prems have "y \<in> set xs" by simp
    then show ?thesis using Cons.IH by simp
  qed
qed

lemma next_rowid_fresh: "i \<in> set ids \<Longrightarrow> i < next_rowid ids"
proof (cases ids)
  case Nil
  assume "i \<in> set ids"
  with Nil show ?thesis by simp
next
  case (Cons x xs)
  assume "i \<in> set ids"
  with Cons have "i = x \<or> i \<in> set xs" by simp
  then have "i \<le> fold max xs x"
    using fold_max_ge [of x xs] fold_max_mem [of i xs x] by blast
  with Cons show ?thesis by (simp add: next_rowid_def)
qed

lemma next_rowid_notin: "next_rowid ids \<notin> set ids"
  using next_rowid_fresh [of "next_rowid ids" ids] by auto

lemma find_append_Some: "find P xs = Some x \<Longrightarrow> find P (xs @ ys) = Some x"
  by (induction xs) (auto split: if_splits)

lemma find_append_None: "find P xs = None \<Longrightarrow> find P (xs @ ys) = find P ys"
  by (induction xs) (auto split: if_splits)

lemma find_Some_mem: "find P xs = Some x \<Longrightarrow> x \<in> set xs \<and> P x"
  by (induction xs) (auto split: if_splits)

lemma find_None_all: "find P xs = None \<Longrightarrow> \<forall>x\<in>set xs. \<not> P x"
  by (induction xs) (auto split: if_splits)

lemma appends_to_refl: "appends_to d d"
  by (simp add: appends_to_def)

lemma appends_to_trans: "appends_to a b \<Longrightarrow> appends_to b c \<Longrightarrow> appends_to a c"
  by (auto simp: appends_to_def)

section \<open>The session directory\<close>

lemma select_trade_day_key:
  "select_trade_day symbol date source d = Some td
   \<Longrightarrow> td \<in> set (trade_days d) \<and> td_key td = (symbol, date, source)"
  by (auto simp: select_trade_day_def td_key_def dest!: find_Some_mem)

lemma select_trade_day_stable:
  "select_trade_day symbol date source d = Some td \<Longrightarrow> appends_to d d2
   \<Longrightarrow> select_trade_day symbol date source d2 = Some td"
  by (auto simp: select_trade_day_def appends_to_def find_append_Some)

lemma get_or_create_found:
  "select_trade_day symbol date source d = Some td
   \<Longrightarrow> get_or_create_trade_day symbol date source d = (td_id td, d)"
  by (simp add: get_or_create_trade_day_def)

lemma get_or_create_new:
  "select_trade_day symbol date source d = None
   \<Longrightarrow> get_or_create_trade_day symbol date source d =
       (next_rowid (map td_id (trade_days d)),
        d\<lparr>trade_days := trade_days d @
            [\<lparr>td_id = next_rowid (map td_id (trade_days d)), td_symbol = symbol,
              td_session_date = date, td_source = source\<rparr>]\<rparr>)"
  by (simp add: get_or_create_trade_day_def Let_def)

lemma get_or_create_selects:
  assumes "get_or_create_trade_day symbol date source d = (i, d')"
  shows "\<exists>td. select_trade_day symbol date source d' = Some td \<and> td_id td = i"
proof (cases "select_trade_day symbol date source d")
  case None
  with assms get_or_create_new [OF None] show ?thesis
    by (auto simp: select_trade_day_def find_append_None)
next
  case (Some td)
  with assms get_or_create_found [OF Some] show ?thesis by auto
qed

lemma get_or_create_again:
  assumes "get_or_create_trade_day symbol date source d = (i, d')"
  shows "get_or_create_trade_day symbol date source d' = (i, d')"
  using get_or_create_selects [OF assms] by (auto simp: get_or_create_found)

lemma get_or_create_appends:
  assumes "get_or_create_trade_day symbol date source d = (i, d')"
  shows "appends_to d d'"
proof (cases "select_trade_day symbol date source d")
  case None
  with assms get_or_create_new [OF None] show ?thesis by (auto simp: appends_to_def)
next
  case (Some td)
  with assms get_or_create_found [OF Some] show ?thesis by (auto simp: appends_to_def)
qed

lemma get_or_create_frame:
  assumes "get_or_create_trade_day symbol date source d = (i, d')"
  shows "bars d' = bars d \<and> day_annotations d' = day_annotations d"
proof (cases "select_trade_day symbol date source d")
  case None
  with assms get_or_create_new [OF None] show ?thesis by auto
next
  case (Some td)
  with assms get_or_create_found [OF Some] show ?thesis by auto
qed

lemma get_or_create_row:
  assumes "get_or_create_trade_day symbol date source d = (i, d')"
  shows "\<exists>td\<in>set (trade_days d'). td_id td = i \<and> td_key td = (symbol, date, source)"
  using get_or_create_selects [OF assms] by (auto dest: select_trade_day_key)

lemma get_or_create_distinct_keys:
  assumes "get_or_create_trade_day symbol date source d = (i, d')"
    and "distinct (map td_key (trade_days d))"
  shows "distinct (map td_key (trade_days d'))"
proof (cases "select_trade_day symbol date source d")
  case None
  then have "\<forall>td\<in>set (trade_days d). td_key td \<noteq> (symbol, date, source)"
    by (auto simp: select_trade_day_def td_key_def dest!: find_None_all)
  with assms get_or_create_new [OF None] show ?thesis by (auto simp: td_key_def)
next
  case (Some td)
  with assms get_or_create_found [OF Some] show ?thesis by auto
qed

lemma get_or_create_distinct_ids:
  assumes "get_or_create_trade_day symbol date source d = (i, d')"
    and "distinct (map td_id (trade_days d))"
  shows "distinct (map td_id (trade_days d'))"
proof (cases "select_trade_day symbol date source d")
  case None
  with assms get_or_create_new [OF None] next_rowid_notin [of "map td_id (trade_days d)"]
  show ?thesis by auto
next
  case (Some td)
  with assms get_or_create_found [OF Some] show ?thesis by auto
qed

lemma get_or_create_stable:
  assumes "get_or_create_trade_day symbol date source d = (i, d')"
    and "appends_to d' d2"
  shows "get_or_create_trade_day symbol date source d2 = (i, d2)"
proof -
  from get_or_create_selects [OF assms(1)] obtain td
    where "select_trade_day symbol date source d' = Some td" and "td_id td = i" by blast
  with assms(2) show ?thesis
    by (auto dest: select_trade_day_stable simp: get_or_create_found)
qed

lemma get_or_create_new_ids:
  assumes "get_or_create_trade_day symbol date source d = (i, d1)"
  shows "\<exists>new. trade_days d1 = trade_days d @ new
           \<and> (\<forall>td\<in>set new. td_id td \<notin> td_id ` set (trade_days d))"
proof (cases "select_trade_day symbol date source d")
  case None
  from assms get_or_create_new [OF None] next_rowid_notin [of "map td_id (trade_days d)"]
  show ?thesis by auto
next
  case (Some td)
  with assms get_or_create_found [OF Some] show ?thesis by auto
qed

section \<open>The loop of the ingestion\<close>

text \<open>
  A bar that is found stays found when rows are appended, and a bar that was
  inserted is found afterwards and matches its own record. So a record that has
  been through the loop once is settled: on any later store it is skipped or
  reported as a conflict, and writes nothing.
\<close>

lemma existing_bar_stable:
  "existing_bar tid ts d = Some e \<Longrightarrow> appends_to d d2 \<Longrightarrow> existing_bar tid ts d2 = Some e"
  by (auto simp: existing_bar_def appends_to_def find_append_Some split: option.splits)

lemma existing_bar_mem: "existing_bar tid ts d = Some e \<Longrightarrow> e \<in> set (bars d)"
  by (auto simp: existing_bar_def split: option.splits dest: find_Some_mem)

lemma store_bar_existing:
  "existing_bar tid (p_timestamp p) d = Some e \<Longrightarrow>
   store_bar f tid p row (st, d) =
     (if ohlcv_matches e p then (st\<lparr>skipped := skipped st + 1\<rparr>, d)
      else (st\<lparr>conflicts := conflicts st + 1,
               conflict_details := conflict_details st @ [conflict_of f e p]\<rparr>, d))"
  by (simp add: store_bar_def)

lemma store_bar_new:
  "existing_bar tid (p_timestamp p) d = None \<Longrightarrow>
   store_bar f tid p row (st, d) =
     (st\<lparr>inserted := inserted st + 1\<rparr>, d\<lparr>bars := bars d @ [new_bar tid p row d]\<rparr>)"
  by (simp add: store_bar_def)

lemma existing_after_insert:
  "existing_bar tid (p_timestamp p) d = None \<Longrightarrow>
   existing_bar tid (p_timestamp p) (d\<lparr>bars := bars d @ [new_bar tid p row d]\<rparr>) =
     Some (new_bar tid p row d)"
  by (cases tid) (auto simp: existing_bar_def find_append_None new_bar_def)

lemma ohlcv_matches_new_bar: "ohlcv_matches (new_bar tid p row d) p"
  by (simp add: ohlcv_matches_def new_bar_def)

lemma store_bar_appends:
  assumes "store_bar f tid p row (st, d) = (st1, d1)"
  shows "appends_to d d1 \<and> trade_days d1 = trade_days d"
proof (cases "existing_bar tid (p_timestamp p) d")
  case None
  from assms store_bar_new [OF None, of f row st] show ?thesis
    by (auto simp: appends_to_def)
next
  case (Some e)
  from assms store_bar_existing [OF Some, of f row st] show ?thesis
    by (auto simp: appends_to_def split: if_splits)
qed

lemma store_bar_settled:
  assumes s: "store_bar f tid p row (st, d) = (st1, d1)" and a: "appends_to d1 d2"
  shows "\<exists>st2. store_bar f tid p row (st', d2) = (st2, d2)
           \<and> inserted st2 = inserted st'
           \<and> skipped st2 + inserted st + skipped st = skipped st' + inserted st1 + skipped st1
           \<and> conflicts st2 + conflicts st = conflicts st' + conflicts st1"
proof (cases "existing_bar tid (p_timestamp p) d")
  case None
  from s store_bar_new [OF None, of f row st]
  have st1: "st1 = st\<lparr>inserted := inserted st + 1\<rparr>"
    and d1: "d1 = d\<lparr>bars := bars d @ [new_bar tid p row d]\<rparr>" by auto
  from existing_after_insert [OF None, of row] d1
  have "existing_bar tid (p_timestamp p) d1 = Some (new_bar tid p row d)" by simp
  from this a have "existing_bar tid (p_timestamp p) d2 = Some (new_bar tid p row d)"
    by (rule existing_bar_stable)
  from store_bar_existing [OF this, of f row st'] ohlcv_matches_new_bar [of tid p row d]
  have "store_bar f tid p row (st', d2) = (st'\<lparr>skipped := skipped st' + 1\<rparr>, d2)" by simp
  with st1 show ?thesis by simp
next
  case (Some e)
  from s store_bar_existing [OF Some, of f row st] have d1: "d1 = d"
    by (auto split: if_splits)
  with a Some have e2: "existing_bar tid (p_timestamp p) d2 = Some e"
    by (auto intro: existing_bar_stable)
  show ?thesis
  proof (cases "ohlcv_matches e p")
    case True
    with s store_bar_existing [OF Some, of f row st]
    have "st1 = st\<lparr>skipped := skipped st + 1\<rparr>" by simp
    with True store_bar_existing [OF e2, of f row st'] show ?thesis by simp
  next
    case False
    with s store_bar_existing [OF Some, of f row st]
    have "st1 = st\<lparr>conflicts := conflicts st + 1,
               conflict_details := conflict_details st @ [conflict_of f e p]\<rparr>" by simp
    with False store_bar_existing [OF e2, of f row st'] show ?thesis by simp
  qed
qed

lemma bar_trade_day_appends:
  assumes "bar_trade_day symbol source sd d = (tid, d1)"
  shows "appends_to d d1 \<and> bars d1 = bars d \<and> day_annotations d1 = day_annotations d"
proof (cases sd)
  case None
  with assms show ?thesis by (simp add: bar_trade_day_def appends_to_refl)
next
  case (Some date)
  with assms obtain i where "get_or_create_trade_day symbol date source d = (i, d1)"
    by (auto simp: bar_trade_day_def split: prod.splits)
  then show ?thesis using get_or_create_appends get_or_create_frame by blast
qed

lemma bar_trade_day_stable:
  assumes "bar_trade_day symbol source sd d = (tid, d1)" and "appends_to d1 d2"
  shows "bar_trade_day symbol source sd d2 = (tid, d2)"
proof (cases sd)
  case None
  with assms show ?thesis by (simp add: bar_trade_day_def)
next
  case (Some date)
  with assms(1) obtain i where g: "get_or_create_trade_day symbol date source d = (i, d1)"
    and tid: "tid = Some i"
    by (auto simp: bar_trade_day_def split: prod.splits)
  from get_or_create_stable [OF g assms(2)] Some tid show ?thesis
    by (simp add: bar_trade_day_def)
qed

lemma ingest_row_Inr:
  assumes "ingest_row lib f symbol source row (st, d) = Inr (st1, d1)"
  obtains p sd tid d0 where "parse_row lib source row = Inr p"
    and "resolve_in_file lib f (p_timestamp p) = Inr sd"
    and "bar_trade_day symbol source sd d = (tid, d0)"
    and "store_bar f tid p row (st, d0) = (st1, d1)"
  using assms
  by (auto simp: ingest_row_def and_then_def split: sum.splits prod.splits)

lemma ingest_row_eq:
  assumes "parse_row lib source row = Inr p"
    and "resolve_in_file lib f (p_timestamp p) = Inr sd"
    and "bar_trade_day symbol source sd d = (tid, d0)"
  shows "ingest_row lib f symbol source row (st, d) = Inr (store_bar f tid p row (st, d0))"
  using assms by (simp add: ingest_row_def and_then_def)

lemma ingest_row_appends:
  assumes "ingest_row lib f symbol source row (st, d) = Inr (st1, d1)"
  shows "appends_to d d1"
proof -
  from assms obtain p sd tid d0 where b: "bar_trade_day symbol source sd d = (tid, d0)"
    and s: "store_bar f tid p row (st, d0) = (st1, d1)"
    by (rule ingest_row_Inr)
  from bar_trade_day_appends [OF b] store_bar_appends [OF s] show ?thesis
    by (blast intro: appends_to_trans)
qed

lemma ingest_row_settled:
  assumes i: "ingest_row lib f symbol source row (st, d) = Inr (st1, d1)"
    and a: "appends_to d1 d2"
  shows "\<exists>st2. ingest_row lib f symbol source row (st', d2) = Inr (st2, d2)
           \<and> inserted st2 = inserted st'
           \<and> skipped st2 + inserted st + skipped st = skipped st' + inserted st1 + skipped st1
           \<and> conflicts st2 + conflicts st = conflicts st' + conflicts st1"
proof -
  from i obtain p sd tid d0 where p: "parse_row lib source row = Inr p"
    and r: "resolve_in_file lib f (p_timestamp p) = Inr sd"
    and b: "bar_trade_day symbol source sd d = (tid, d0)"
    and s: "store_bar f tid p row (st, d0) = (st1, d1)"
    by (rule ingest_row_Inr)
  from store_bar_appends [OF s] a have "appends_to d0 d2"
    by (blast intro: appends_to_trans)
  from bar_trade_day_stable [OF b this]
  have b2: "bar_trade_day symbol source sd d2 = (tid, d2)" .
  from ingest_row_eq [OF p r b2]
  have "ingest_row lib f symbol source row (st', d2) = Inr (store_bar f tid p row (st', d2))" .
  with store_bar_settled [OF s a, of st'] show ?thesis by auto
qed

lemma ingest_rows_appends:
  "ingest_rows lib f symbol source rows (st, d) = Inr (st1, d1) \<Longrightarrow> appends_to d d1"
proof (induction rows arbitrary: st d)
  case Nil
  then show ?case by (simp add: appends_to_refl)
next
  case (Cons row rows)
  from Cons.prems obtain sta da
    where h: "ingest_row lib f symbol source row (st, d) = Inr (sta, da)"
      and t: "ingest_rows lib f symbol source rows (sta, da) = Inr (st1, d1)"
    by (auto simp: and_then_def split: sum.splits)
  from ingest_row_appends [OF h] Cons.IH [OF t] show ?case
    by (rule appends_to_trans)
qed

lemma ingest_rows_settled:
  "ingest_rows lib f symbol source rows (st, d) = Inr (st1, d1) \<Longrightarrow> appends_to d1 d2 \<Longrightarrow>
   \<exists>st2. ingest_rows lib f symbol source rows (st', d2) = Inr (st2, d2)
           \<and> inserted st2 = inserted st'
           \<and> skipped st2 + inserted st + skipped st = skipped st' + inserted st1 + skipped st1
           \<and> conflicts st2 + conflicts st = conflicts st' + conflicts st1"
proof (induction rows arbitrary: st d st')
  case Nil
  then show ?case by simp
next
  case (Cons row rows)
  from Cons.prems(1) obtain sta da
    where h: "ingest_row lib f symbol source row (st, d) = Inr (sta, da)"
      and t: "ingest_rows lib f symbol source rows (sta, da) = Inr (st1, d1)"
    by (auto simp: and_then_def split: sum.splits)
  from ingest_rows_appends [OF t] Cons.prems(2) have "appends_to da d2"
    by (rule appends_to_trans)
  from ingest_row_settled [OF h this, of st'] obtain stb
    where h2: "ingest_row lib f symbol source row (st', d2) = Inr (stb, d2)"
      and i1: "inserted stb = inserted st'"
      and s1: "skipped stb + inserted st + skipped st = skipped st' + inserted sta + skipped sta"
      and c1: "conflicts stb + conflicts st = conflicts st' + conflicts sta"
    by blast
  from Cons.IH [OF t Cons.prems(2), of stb] obtain st2
    where t2: "ingest_rows lib f symbol source rows (stb, d2) = Inr (st2, d2)"
      and i2: "inserted st2 = inserted stb"
      and s2: "skipped st2 + inserted sta + skipped sta = skipped stb + inserted st1 + skipped st1"
      and c2: "conflicts st2 + conflicts sta = conflicts stb + conflicts st1"
    by blast
  from h2 t2 have "ingest_rows lib f symbol source (row # rows) (st', d2) = Inr (st2, d2)"
    by (simp add: and_then_def)
  moreover from i1 i2 have "inserted st2 = inserted st'" by simp
  moreover from s1 s2
  have "skipped st2 + inserted st + skipped st = skipped st' + inserted st1 + skipped st1"
    by linarith
  moreover from c1 c2 have "conflicts st2 + conflicts st = conflicts st' + conflicts st1"
    by linarith
  ultimately show ?case by blast
qed

subsection \<open>Failing records\<close>

lemma resolve_in_file_saturday:
  "is_saturday (tz lib) t \<Longrightarrow>
   resolve_in_file lib f t = Inl (InvalidSession t (get_pt_datetime (tz lib) t) (Some f))"
  by (simp add: resolve_in_file_def resolve_trade_day_def with_file_def)

lemma resolve_in_file_ok:
  "\<not> is_saturday (tz lib) t \<Longrightarrow> \<exists>sd. resolve_in_file lib f t = Inr sd"
  by (simp add: resolve_in_file_def resolve_trade_day_def Let_def)

lemma ingest_row_parse_error:
  "parse_row lib source row = Inl e \<Longrightarrow> ingest_row lib f symbol source row sd = Inl e"
  by (simp add: ingest_row_def and_then_def)

lemma ingest_row_saturday:
  "parse_row lib source row = Inr p \<Longrightarrow> is_saturday (tz lib) (p_timestamp p) \<Longrightarrow>
   ingest_row lib f symbol source row sd =
     Inl (InvalidSession (p_timestamp p) (get_pt_datetime (tz lib) (p_timestamp p)) (Some f))"
  by (simp add: ingest_row_def and_then_def resolve_in_file_saturday)

lemma ingest_row_ok:
  assumes "\<not> row_fails lib source row"
  shows "\<exists>sd'. ingest_row lib f symbol source row sd = Inr sd'"
proof -
  from assms obtain p where p: "parse_row lib source row = Inr p"
    and ns: "\<not> is_saturday (tz lib) (p_timestamp p)"
    by (auto simp: row_fails_def split: sum.splits)
  from resolve_in_file_ok [OF ns, of f] obtain sd'
    where "resolve_in_file lib f (p_timestamp p) = Inr sd'" by blast
  with p show ?thesis
    by (auto simp: ingest_row_def and_then_def split: prod.splits)
qed

lemma ingest_rows_prefix_ok:
  "\<forall>r\<in>set pre. \<not> row_fails lib source r \<Longrightarrow>
   \<exists>sd'. ingest_rows lib f symbol source (pre @ rest) sd
           = ingest_rows lib f symbol source rest sd'"
proof (induction pre arbitrary: sd)
  case Nil
  show ?case by (rule exI [of _ sd]) simp
next
  case (Cons r pre)
  then have "\<not> row_fails lib source r" by simp
  from ingest_row_ok [OF this, of f symbol sd] obtain sda
    where "ingest_row lib f symbol source r sd = Inr sda" by blast
  moreover from Cons have "\<exists>sd'. ingest_rows lib f symbol source (pre @ rest) sda
           = ingest_rows lib f symbol source rest sd'" by simp
  ultimately show ?case by (simp add: and_then_def)
qed

subsection \<open>Trade days during ingestion\<close>

lemma bar_trade_day_distinct_keys:
  assumes "bar_trade_day symbol source sd d = (tid, d1)"
    and "distinct (map td_key (trade_days d))"
  shows "distinct (map td_key (trade_days d1))"
proof (cases sd)
  case None
  with assms show ?thesis by (simp add: bar_trade_day_def)
next
  case (Some date)
  with assms(1) obtain i where "get_or_create_trade_day symbol date source d = (i, d1)"
    by (auto simp: bar_trade_day_def split: prod.splits)
  from get_or_create_distinct_keys [OF this assms(2)] show ?thesis .
qed

lemma ingest_row_distinct_keys:
  assumes "ingest_row lib f symbol source row (st, d) = Inr (st1, d1)"
    and "distinct (map td_key (trade_days d))"
  shows "distinct (map td_key (trade_days d1))"
proof -
  from assms(1) obtain p sd tid d0 where b: "bar_trade_day symbol source sd d = (tid, d0)"
    and s: "store_bar f tid p row (st, d0) = (st1, d1)"
    by (rule ingest_row_Inr)
  from bar_trade_day_distinct_keys [OF b assms(2)] store_bar_appends [OF s]
  show ?thesis by simp
qed

lemma ingest_rows_distinct_keys:
  "ingest_rows lib f symbol source rows (st, d) = Inr (st1, d1) \<Longrightarrow>
   distinct (map td_key (trade_days d)) \<Longrightarrow> distinct (map td_key (trade_days d1))"
proof (induction rows arbitrary: st d)
  case Nil
  then show ?case by simp
next
  case (Cons row rows)
  from Cons.prems(1) obtain sta da
    where h: "ingest_row lib f symbol source row (st, d) = Inr (sta, da)"
      and t: "ingest_rows lib f symbol source rows (sta, da) = Inr (st1, d1)"
    by (auto simp: and_then_def split: sum.splits)
  from ingest_row_distinct_keys [OF h Cons.prems(2)] Cons.IH [OF t] show ?case by simp
qed

lemma ingest_csv_trade_days:
  "(\<exists>tds. trade_days (snd (ingest_csv lib rows f symbol timeframe source d)) = trade_days d @ tds)
   \<and> (distinct (map td_key (trade_days d)) \<longrightarrow>
        distinct (map td_key (trade_days (snd (ingest_csv lib rows f symbol timeframe source d)))))"
proof (cases "ingest_rows lib f symbol source rows (empty_stats, d)")
  case (Inl e)
  then show ?thesis by (simp add: ingest_csv_def)
next
  case (Inr sd)
  obtain st1 d1 where sd: "sd = (st1, d1)" by (cases sd)
  from Inr sd have r: "ingest_rows lib f symbol source rows (empty_stats, d) = Inr (st1, d1)"
    by simp
  from ingest_rows_appends [OF r] ingest_rows_distinct_keys [OF r] r show ?thesis
    by (auto simp: ingest_csv_def appends_to_def)
qed

lemma save_day_annotation_trade_days:
  "trade_days (snd (save_day_annotation symbol date content ty tags source sid now d)) =
   trade_days (snd (get_or_create_trade_day symbol date ''tradingview'' d))"
  by (simp add: save_day_annotation_def Let_def split: prod.splits)

section \<open>Consistency of the store\<close>

text \<open>
  The empty store is consistent, and ingestion and annotation keep it so.
\<close>

lemma save_day_annotation_eq:
  assumes "get_or_create_trade_day symbol date ''tradingview'' d = (tid, d1)"
  shows "save_day_annotation symbol date content ty tags source sid now d =
     (next_rowid (map ann_id (day_annotations d1)),
      d1\<lparr>day_annotations :=
           (if truthy_int sid then mark_superseded (the sid) else (\<lambda>x. x))
             (day_annotations d1 @
               [new_annotation (next_rowid (map ann_id (day_annotations d1))) tid content ty
                  tags source sid now])\<rparr>)"
  using assms by (simp add: save_day_annotation_def Let_def new_annotation_def)

lemma mark_superseded_map: "mark_superseded i anns = map (mark_one i) anns"
  by (simp add: mark_superseded_def mark_one_def)

lemma db_consistent_init: "db_consistent init_database"
  by (simp add: db_consistent_def init_database_def)

lemma db_consistent_appends:
  assumes "db_consistent d" and "appends_to d d1" and "distinct (map td_id (trade_days d1))"
  shows "db_consistent d1"
  using assms by (auto simp: db_consistent_def appends_to_def)

lemma get_or_create_consistent:
  assumes "get_or_create_trade_day symbol date source d = (i, d1)" and "db_consistent d"
  shows "db_consistent d1"
proof -
  from assms(2) have "distinct (map td_id (trade_days d))" by (simp add: db_consistent_def)
  from get_or_create_distinct_ids [OF assms(1) this] get_or_create_appends [OF assms(1)] assms(2)
  show ?thesis by (blast intro: db_consistent_appends)
qed

lemma ingest_row_consistent:
  assumes "ingest_row lib f symbol source row (st, d) = Inr (st1, d1)" and "db_consistent d"
  shows "db_consistent d1"
proof -
  from assms(1) obtain p sd tid d0 where b: "bar_trade_day symbol source sd d = (tid, d0)"
    and s: "store_bar f tid p row (st, d0) = (st1, d1)"
    by (rule ingest_row_Inr)
  have "db_consistent d0"
  proof (cases sd)
    case None
    with b assms(2) show ?thesis by (simp add: bar_trade_day_def)
  next
    case (Some date)
    with b obtain i where "get_or_create_trade_day symbol date source d = (i, d0)"
      by (auto simp: bar_trade_day_def split: prod.splits)
    from get_or_create_consistent [OF this assms(2)] show ?thesis .
  qed
  with store_bar_appends [OF s] show ?thesis
    by (auto simp: db_consistent_def appends_to_def)
qed

lemma ingest_rows_consistent:
  "ingest_rows lib f symbol source rows (st, d) = Inr (st1, d1) \<Longrightarrow> db_consistent d
   \<Longrightarrow> db_consistent d1"
proof (induction rows arbitrary: st d)
  case Nil
  then show ?case by simp
next
  case (Cons row rows)
  from Cons.prems(1) obtain sta da
    where h: "ingest_row lib f symbol source row (st, d) = Inr (sta, da)"
      and t: "ingest_rows lib f symbol source rows (sta, da) = Inr (st1, d1)"
    by (auto simp: and_then_def split: sum.splits)
  from ingest_row_consistent [OF h Cons.prems(2)] Cons.IH [OF t] show ?case by simp
qed

lemma ingest_csv_consistent:
  assumes "db_consistent d"
  shows "db_consistent (snd (ingest_csv lib rows f symbol timeframe source d))"
proof (cases "ingest_rows lib f symbol source rows (empty_stats, d)")
  case (Inl e)
  with assms show ?thesis by (simp add: ingest_csv_def)
next
  case (Inr sd)
  obtain st1 d1 where sd: "sd = (st1, d1)" by (cases sd)
  with Inr ingest_rows_consistent [OF _ assms, of lib f symbol source rows empty_stats st1 d1]
  show ?thesis by (simp add: ingest_csv_def)
qed

lemma next_rowid_positive: "\<forall>i\<in>set ids. 0 < i \<Longrightarrow> 0 < next_rowid ids"
proof (cases ids)
  case Nil
  then show ?thesis by (simp add: next_rowid_def)
next
  case (Cons x xs)
  assume "\<forall>i\<in>set ids. 0 < i"
  with Cons have "0 < x" by simp
  with fold_max_ge [of x xs] have "0 < fold max xs x + 1" by simp
  with Cons show ?thesis by (simp add: next_rowid_def)
qed

lemma save_day_annotation_consistent:
  assumes "db_consistent d"
  shows "db_consistent (snd (save_day_annotation symbol date content ty tags source sid now d))"
proof -
  obtain tid d1 where g: "get_or_create_trade_day symbol date ''tradingview'' d = (tid, d1)"
    by (cases "get_or_create_trade_day symbol date ''tradingview'' d")
  from get_or_create_consistent [OF g assms] have c1: "db_consistent d1" .
  from get_or_create_row [OF g] have tid: "tid \<in> td_id ` set (trade_days d1)" by force
  have keep: "ann_trade_day_id (mark_one i x) = ann_trade_day_id x" for i x
    by (simp add: mark_one_def)
  have keep_id: "ann_id (mark_one i x) = ann_id x" for i x
    by (simp add: mark_one_def)
  from c1 have "\<forall>i\<in>set (map ann_id (day_annotations d1)). 0 < i"
    by (simp add: db_consistent_def)
  then have pos: "0 < next_rowid (map ann_id (day_annotations d1))"
    by (rule next_rowid_positive)
  from c1 tid pos have "\<forall>x\<in>set (day_annotations d1 @
      [new_annotation (next_rowid (map ann_id (day_annotations d1))) tid content ty tags source
         sid now]). ann_trade_day_id x \<in> td_id ` set (trade_days d1) \<and> 0 < ann_id x"
    by (auto simp: db_consistent_def new_annotation_def)
  with c1 show ?thesis
    by (auto simp: save_day_annotation_eq [OF g] db_consistent_def mark_superseded_map keep
        keep_id)
qed

section \<open>Runs on the sample data\<close>

lemma sample_lib_tz: "tz sample_lib = pst"
  by (simp add: sample_lib_def)

lemma sample_floats:
  "decimal_float ''17000'' = Inr 17000"
  "decimal_float ''17010.5'' = Inr 17010.5"
  "decimal_float ''16990.25'' = Inr 16990.25"
  "decimal_float ''17005'' = Inr 17005"
  "decimal_float ''17006'' = Inr 17006"
  "decimal_float ''120'' = Inr 120"
  "decimal_float ''abc'' = Inl (ParseError ''abc'')"
  by (simp_all add: decimal_float_def parse_nat_def digit_of_def)

lemma sample_times:
  "wall_clock CHR '' '' ''2024-01-08 13:00:00'' = Inr 1704718800"
  "wall_clock CHR '' '' ''2024-01-08 13:01:00'' = Inr 1704718860"
  "wall_clock CHR '' '' ''2024-01-08 14:30:00'' = Inr 1704724200"
  "wall_clock CHR '' '' ''2024-01-13 12:00:00'' = Inr 1705147200"
  by code_simp+

lemma sample_row_parse:
  assumes "wall_clock CHR '' '' t = Inr w" and "CHR ''T'' \<notin> set t"
  shows "parse_row sample_lib ''tradingview'' (sample_row t c) =
     (case decimal_float c of
        Inl e \<Rightarrow> Inl e
      | Inr v \<Rightarrow> Inr \<lparr>p_timestamp = w + 28800, p_open = 17000, p_high = 17010.5,
          p_low = 16990.25, p_close = v, p_volume = 120\<rparr>)"
proof -
  have lib: "py_float sample_lib = decimal_float" "strptime sample_lib = wall_clock CHR '' ''"
    "tz sample_lib = pst" "py_strip sample_lib = strip_spaces"
    by (simp_all add: sample_lib_def)
  have ts: "row_timestamp sample_lib ''tradingview'' (sample_row t c) = Inr (w + 28800)"
    using assms
    by (simp add: row_timestamp_def row_item_def sample_row_def parse_tradingview_timestamp_def
        lib pt_timestamp_def pst_def fixed_zone_def)
  have fl: "row_float sample_lib (sample_row t c) ''open'' = Inr 17000"
    "row_float sample_lib (sample_row t c) ''high'' = Inr 17010.5"
    "row_float sample_lib (sample_row t c) ''low'' = Inr 16990.25"
    "row_float sample_lib (sample_row t c) ''close'' = decimal_float c"
    by (simp_all add: row_float_def row_item_def sample_row_def lib sample_floats)
  have "strip_spaces ''120'' = ''120''" by (simp add: strip_spaces_def)
  then have vol: "row_volume sample_lib (sample_row t c) = Inr 120"
    by (simp add: row_volume_def sample_row_def lib sample_floats)
  show ?thesis
    by (simp add: parse_row_def ts fl vol and_then_def split: sum.splits)
qed

lemma parse_monday:
  "parse_row sample_lib ''tradingview'' row_monday = Inr parsed_monday"
  unfolding row_monday_def
  by (subst sample_row_parse [OF sample_times(1)]) (simp_all add: sample_floats parsed_monday_def)

lemma parse_revised:
  "parse_row sample_lib ''tradingview'' row_monday_revised = Inr parsed_revised"
  unfolding row_monday_revised_def
  by (subst sample_row_parse [OF sample_times(1)]) (simp_all add: sample_floats parsed_revised_def)

lemma parse_halt:
  "parse_row sample_lib ''tradingview'' row_halt = Inr parsed_halt"
  unfolding row_halt_def
  by (subst sample_row_parse [OF sample_times(3)]) (simp_all add: sample_floats parsed_halt_def)

lemma parse_saturday:
  "parse_row sample_lib ''tradingview'' row_saturday = Inr parsed_saturday"
  unfolding row_saturday_def
  by (subst sample_row_parse [OF sample_times(4)]) (simp_all add: sample_floats parsed_saturday_def)

lemma parse_malformed:
  "parse_row sample_lib ''tradingview'' row_malformed = Inl (ParseError ''abc'')"
  unfolding row_malformed_def
  by (subst sample_row_parse [OF sample_times(2)]) (simp_all add: sample_floats)

lemma sample_resolve:
  "resolve_trade_day pst 1704747600 = Inr (Some ''2024-01-08'')"
  "resolve_trade_day pst 1704753000 = Inr None"
  "resolve_trade_day pst 1705176000 =
     Inl (InvalidSession 1705176000
           \<lparr>dt_date = 19735, dt_hour = 12, dt_minute = 0, dt_second = 0\<rparr> None)"
  by code_simp+

lemma sample_saturday: "is_saturday pst 1705176000" "\<not> is_saturday pst 1704747600"
  by code_simp+

lemma sample_resolve_in_file:
  "resolve_in_file sample_lib f 1704747600 = Inr (Some ''2024-01-08'')"
  "resolve_in_file sample_lib f 1704753000 = Inr None"
  "resolve_in_file sample_lib f 1705176000 =
     Inl (InvalidSession 1705176000
           \<lparr>dt_date = 19735, dt_hour = 12, dt_minute = 0, dt_second = 0\<rparr> (Some f))"
  by (simp_all add: resolve_in_file_def sample_lib_def sample_resolve with_file_def)

lemma sample_timestamps:
  "p_timestamp parsed_monday = 1704747600" "p_timestamp parsed_revised = 1704747600"
  "p_timestamp parsed_halt = 1704753000" "p_timestamp parsed_saturday = 1705176000"
  by (simp_all add: parsed_monday_def parsed_revised_def parsed_halt_def parsed_saturday_def)

lemma monday_session_created:
  "get_or_create_trade_day ''MNQ'' ''2024-01-08'' ''tradingview'' init_database = (1, db_session)"
  by (simp add: get_or_create_trade_day_def select_trade_day_def init_database_def
      next_rowid_def db_session_def monday_session_def)

lemma monday_session_found:
  "get_or_create_trade_day ''MNQ'' ''2024-01-08'' ''tradingview'' db_session = (1, db_session)"
  "get_or_create_trade_day ''MNQ'' ''2024-01-08'' ''tradingview'' db_monday = (1, db_monday)"
  "get_or_create_trade_day ''MNQ'' ''2024-01-08'' ''tradingview'' db_halt = (1, db_halt)"
  by (simp_all add: get_or_create_trade_day_def select_trade_day_def
      db_session_def db_monday_def db_halt_def monday_session_def)

lemma monday_trade_day:
  "bar_trade_day ''MNQ'' ''tradingview'' (Some ''2024-01-08'') db_monday = (Some 1, db_monday)"
  "bar_trade_day ''MNQ'' ''tradingview'' None db_halt = (None, db_halt)"
  by (simp_all add: bar_trade_day_def monday_session_found)

lemma monday_bar_found:
  "existing_bar (Some 1) 1704747600 db_session = None"
  "existing_bar (Some 1) 1704747600 db_monday = Some monday_bar"
  "existing_bar (Some 1) 1704747600 db_halt = Some monday_bar"
  by (simp_all add: existing_bar_def db_session_def db_monday_def db_halt_def monday_bar_def)

lemma halt_bar_found:
  "existing_bar None 1704753000 db_monday = None"
  "existing_bar None 1704753000 db_halt = Some halt_bar"
  by (simp_all add: existing_bar_def db_monday_def db_halt_def monday_bar_def halt_bar_def)

lemma sample_matches:
  "ohlcv_matches monday_bar parsed_monday"
  "\<not> ohlcv_matches monday_bar parsed_revised"
  "ohlcv_matches halt_bar parsed_halt"
  by (simp_all add: ohlcv_matches_def monday_bar_def halt_bar_def parsed_monday_def
    parsed_revised_def parsed_halt_def)

lemma sample_new_bars:
  "new_bar (Some 1) parsed_monday row_monday db_session = monday_bar"
  "new_bar None parsed_halt row_halt db_monday = halt_bar"
  by (simp_all add: new_bar_def next_rowid_def db_session_def db_monday_def monday_bar_def
      halt_bar_def parsed_monday_def parsed_halt_def)

lemma sample_db_steps:
  "db_session\<lparr>bars := bars db_session @ [monday_bar]\<rparr> = db_monday"
  "db_monday\<lparr>bars := bars db_monday @ [halt_bar]\<rparr> = db_halt"
  by (simp_all add: db_session_def db_monday_def db_halt_def)

lemma ingest_monday_new:
  "ingest_row sample_lib f ''MNQ'' ''tradingview'' row_monday (st, init_database) =
     Inr (st\<lparr>inserted := inserted st + 1\<rparr>, db_monday)"
proof -
  have "ingest_row sample_lib f ''MNQ'' ''tradingview'' row_monday (st, init_database) =
      Inr (store_bar f (Some 1) parsed_monday row_monday (st, db_session))"
    by (rule ingest_row_eq [OF parse_monday, where sd = "Some ''2024-01-08''"])
      (simp_all add: sample_timestamps sample_resolve_in_file bar_trade_day_def
        monday_session_created)
  moreover have "store_bar f (Some 1) parsed_monday row_monday (st, db_session) =
      (st\<lparr>inserted := inserted st + 1\<rparr>, db_monday)"
    by (subst store_bar_new)
      (simp_all add: sample_timestamps monday_bar_found sample_new_bars sample_db_steps)
  ultimately show ?thesis by simp
qed

lemma ingest_monday_again:
  "ingest_row sample_lib f ''MNQ'' ''tradingview'' row_monday (st, db_monday) =
     Inr (st\<lparr>skipped := skipped st + 1\<rparr>, db_monday)"
proof -
  have "ingest_row sample_lib f ''MNQ'' ''tradingview'' row_monday (st, db_monday) =
      Inr (store_bar f (Some 1) parsed_monday row_monday (st, db_monday))"
    by (rule ingest_row_eq [OF parse_monday, where sd = "Some ''2024-01-08''"])
      (simp_all add: sample_timestamps sample_resolve_in_file bar_trade_day_def
        monday_session_found)
  moreover have "store_bar f (Some 1) parsed_monday row_monday (st, db_monday) =
      (st\<lparr>skipped := skipped st + 1\<rparr>, db_monday)"
    by (subst store_bar_existing [where e = monday_bar])
      (simp_all add: sample_timestamps monday_bar_found sample_matches)
  ultimately show ?thesis by simp
qed

lemma ingest_monday_again_halt:
  "ingest_row sample_lib f ''MNQ'' ''tradingview'' row_monday (st, db_halt) =
     Inr (st\<lparr>skipped := skipped st + 1\<rparr>, db_halt)"
proof -
  have "ingest_row sample_lib f ''MNQ'' ''tradingview'' row_monday (st, db_halt) =
      Inr (store_bar f (Some 1) parsed_monday row_monday (st, db_halt))"
    by (rule ingest_row_eq [OF parse_monday, where sd = "Some ''2024-01-08''"])
      (simp_all add: sample_timestamps sample_resolve_in_file bar_trade_day_def
        monday_session_found)
  moreover have "store_bar f (Some 1) parsed_monday row_monday (st, db_halt) =
      (st\<lparr>skipped := skipped st + 1\<rparr>, db_halt)"
    by (subst store_bar_existing [where e = monday_bar])
      (simp_all add: sample_timestamps monday_bar_found sample_matches)
  ultimately show ?thesis by simp
qed

lemma ingest_halt_new:
  "ingest_row sample_lib f ''MNQ'' ''tradingview'' row_halt (st, db_monday) =
     Inr (st\<lparr>inserted := inserted st + 1\<rparr>, db_halt)"
proof -
  have "ingest_row sample_lib f ''MNQ'' ''tradingview'' row_halt (st, db_monday) =
      Inr (store_bar f None parsed_halt row_halt (st, db_monday))"
    by (rule ingest_row_eq [OF parse_halt, where sd = None])
      (simp_all add: sample_timestamps sample_resolve_in_file bar_trade_day_def)
  moreover have "store_bar f None parsed_halt row_halt (st, db_monday) =
      (st\<lparr>inserted := inserted st + 1\<rparr>, db_halt)"
    by (subst store_bar_new)
      (simp_all add: sample_timestamps halt_bar_found sample_new_bars sample_db_steps)
  ultimately show ?thesis by simp
qed

lemma ingest_halt_again:
  "ingest_row sample_lib f ''MNQ'' ''tradingview'' row_halt (st, db_halt) =
     Inr (st\<lparr>skipped := skipped st + 1\<rparr>, db_halt)"
proof -
  have "ingest_row sample_lib f ''MNQ'' ''tradingview'' row_halt (st, db_halt) =
      Inr (store_bar f None parsed_halt row_halt (st, db_halt))"
    by (rule ingest_row_eq [OF parse_halt, where sd = None])
      (simp_all add: sample_timestamps sample_resolve_in_file bar_trade_day_def)
  moreover have "store_bar f None parsed_halt row_halt (st, db_halt) =
      (st\<lparr>skipped := skipped st + 1\<rparr>, db_halt)"
    by (subst store_bar_existing [where e = halt_bar])
      (simp_all add: sample_timestamps halt_bar_found sample_matches)
  ultimately show ?thesis by simp
qed

lemma ingest_saturday_fails:
  "ingest_row sample_lib f ''MNQ'' ''tradingview'' row_saturday sd =
     Inl (InvalidSession 1705176000
           \<lparr>dt_date = 19735, dt_hour = 12, dt_minute = 0, dt_second = 0\<rparr> (Some f))"
  by (simp add: ingest_row_def and_then_def parse_saturday sample_timestamps
      sample_resolve_in_file)

lemma ingest_malformed_fails:
  "ingest_row sample_lib f ''MNQ'' ''tradingview'' row_malformed sd = Inl (ParseError ''abc'')"
  by (simp add: ingest_row_def and_then_def parse_malformed)

lemma run_monday:
  "ingest_csv sample_lib [row_monday] f ''MNQ'' tf ''tradingview'' init_database =
     (Inr \<lparr>inserted = 1, skipped = 0, conflicts = 0, conflict_details = []\<rparr>, db_monday)"
  by (simp add: ingest_csv_def and_then_def ingest_monday_new empty_stats_def)

lemma run_duplicate_first:
  "ingest_csv sample_lib [row_monday, row_monday] f ''MNQ'' tf ''tradingview'' init_database =
     (Inr \<lparr>inserted = 1, skipped = 1, conflicts = 0, conflict_details = []\<rparr>, db_monday)"
  by (simp add: ingest_csv_def and_then_def ingest_monday_new ingest_monday_again empty_stats_def)

lemma run_duplicate_second:
  "ingest_csv sample_lib [row_monday, row_monday] f ''MNQ'' tf ''tradingview'' db_monday =
     (Inr \<lparr>inserted = 0, skipped = 2, conflicts = 0, conflict_details = []\<rparr>, db_monday)"
  by (simp add: ingest_csv_def and_then_def ingest_monday_again empty_stats_def)

lemma run_two_rows:
  "ingest_csv sample_lib [row_monday, row_halt] f ''MNQ'' tf ''tradingview'' init_database =
     (Inr \<lparr>inserted = 2, skipped = 0, conflicts = 0, conflict_details = []\<rparr>, db_halt)"
  by (simp add: ingest_csv_def and_then_def ingest_monday_new ingest_halt_new empty_stats_def)

lemma run_saturday:
  "ingest_csv sample_lib [row_monday, row_saturday] f ''MNQ'' tf ''tradingview'' init_database =
     (Inl (InvalidSession 1705176000
           \<lparr>dt_date = 19735, dt_hour = 12, dt_minute = 0, dt_second = 0\<rparr> (Some f)),
      init_database)"
  by (simp add: ingest_csv_def and_then_def ingest_monday_new ingest_saturday_fails)

lemma run_malformed:
  "ingest_csv sample_lib [row_monday, row_malformed] f ''MNQ'' tf ''tradingview'' init_database =
     (Inl (ParseError ''abc''), init_database)"
  by (simp add: ingest_csv_def and_then_def ingest_monday_new ingest_malformed_fails)

lemma sample_row_fails:
  "row_fails sample_lib ''tradingview'' row_saturday"
  "row_fails sample_lib ''tradingview'' row_malformed"
  "\<not> row_fails sample_lib ''tradingview'' row_monday"
  by (simp_all add: row_fails_def parse_saturday parse_malformed parse_monday sample_timestamps
      sample_saturday sample_lib_tz)

lemma save_note_a:
  "save_day_annotation ''MNQ'' ''2024-01-08'' ''Test observation'' ''observation''
     (Some [''momentum'', ''trend_day'']) ''manual'' None 5 init_database = (1, db_noted)"
  by (subst save_day_annotation_eq [OF monday_session_created])
    (simp add: db_session_def db_noted_def note_a_def new_annotation_def next_rowid_def
      truthy_def truthy_int_def)

lemma monday_session_noted:
  "get_or_create_trade_day ''MNQ'' ''2024-01-08'' ''tradingview'' db_noted = (1, db_noted)"
  by (simp add: get_or_create_trade_day_def select_trade_day_def db_noted_def monday_session_def)

lemma save_note_b:
  "save_day_annotation ''MNQ'' ''2024-01-08'' ''Updated observation'' ''observation''
     (Some [''updated'']) ''manual'' (Some 1) 6 db_noted = (2, db_superseded)"
  by (subst save_day_annotation_eq [OF monday_session_noted])
    (simp add: db_noted_def db_superseded_def note_a_def note_b_def new_annotation_def
      next_rowid_def truthy_def truthy_int_def mark_superseded_def)

lemma query_noted:
  "get_day_annotations ''MNQ'' ''2024-01-08'' ''2024-01-08'' None status None db_noted =
     (if status = ''all'' \<or> status = ''active'' then [result_a] else [])"
  by (simp add: get_day_annotations_def annotation_rows_def annotations_join_def
      join_annotation_def annotations_where_def db_noted_def note_a_def monday_session_def
      tags_match_def truthy_def annotation_result_of_def result_a_def)

lemma db_noted_consistent: "db_consistent db_noted"
  by (simp add: db_consistent_def db_noted_def note_a_def monday_session_def)

section \<open>Properties of the ingestion\<close>

text \<open>
  Claim C2. An insert attempt that finds a stored bar under its lookup key (the
  trade day and the timestamp, or the timestamp among the halt bars) writes no
  bar. When all five of open, high, low, close and volume are within 0.001 of the
  stored values, the record is counted as skipped and nothing else changes. When
  one of them is 0.001 or more away, the report gains one conflict, whose detail
  holds the timestamp, the reason, the file, the stored values and the incoming
  ones. The stored bars are the same before and after.
\<close>

theorem ingest_row_existing_bar:
  assumes "parse_row lib source row = Inr p"
    and "resolve_in_file lib f (p_timestamp p) = Inr session_date"
    and "bar_trade_day symbol source session_date d = (trade_day_id, d')"
    and "existing_bar trade_day_id (p_timestamp p) d' = Some existing"
  shows "existing \<in> set (bars d)
       \<and> (\<bar>bar_open existing - p_open p\<bar> < 0.001 \<and> \<bar>bar_high existing - p_high p\<bar> < 0.001
          \<and> \<bar>bar_low existing - p_low p\<bar> < 0.001 \<and> \<bar>bar_close existing - p_close p\<bar> < 0.001
          \<and> \<bar>bar_volume existing - p_volume p\<bar> < 0.001 \<longrightarrow>
            ingest_row lib f symbol source row (st, d) = Inr (st\<lparr>skipped := skipped st + 1\<rparr>, d')
            \<and> bars d' = bars d)
       \<and> (\<bar>bar_open existing - p_open p\<bar> \<ge> 0.001 \<or> \<bar>bar_high existing - p_high p\<bar> \<ge> 0.001
          \<or> \<bar>bar_low existing - p_low p\<bar> \<ge> 0.001 \<or> \<bar>bar_close existing - p_close p\<bar> \<ge> 0.001
          \<or> \<bar>bar_volume existing - p_volume p\<bar> \<ge> 0.001 \<longrightarrow>
            ingest_row lib f symbol source row (st, d) =
              Inr (st\<lparr>conflicts := conflicts st + 1,
                      conflict_details := conflict_details st @
                        [\<lparr>cd_timestamp = p_timestamp p, cd_reason = ''OHLCV mismatch'',
                          cd_file = f,
                          cd_existing = \<lparr>ohlcv_open = bar_open existing,
                            ohlcv_high = bar_high existing, ohlcv_low = bar_low existing,
                            ohlcv_close = bar_close existing,
                            ohlcv_volume = bar_volume existing\<rparr>,
                          cd_new = \<lparr>ohlcv_open = p_open p, ohlcv_high = p_high p,
                            ohlcv_low = p_low p, ohlcv_close = p_close p,
                            ohlcv_volume = p_volume p\<rparr>\<rparr>]\<rparr>, d')
            \<and> bars d' = bars d)"
proof -
  from bar_trade_day_appends [OF assms(3)] have b: "bars d' = bars d" by simp
  from existing_bar_mem [OF assms(4)] b have m: "existing \<in> set (bars d)" by simp
  from ingest_row_eq [OF assms(1,2,3), of st] store_bar_existing [OF assms(4), of f row st]
  have "ingest_row lib f symbol source row (st, d) =
     Inr (if ohlcv_matches existing p then (st\<lparr>skipped := skipped st + 1\<rparr>, d')
      else (st\<lparr>conflicts := conflicts st + 1,
               conflict_details := conflict_details st @ [conflict_of f existing p]\<rparr>, d'))"
    by simp
  with b m show ?thesis
    by (auto simp: ohlcv_matches_def conflict_of_def)
qed

text \<open>
  The Monday bar ingested again, ingested with a close one point higher, and the
  halt bar ingested again.
\<close>

theorem ingest_row_existing_bar_witness:
  "ingest_row sample_lib ''f.csv'' ''MNQ'' ''tradingview'' row_monday (empty_stats, db_monday)
     = Inr (\<lparr>inserted = 0, skipped = 1, conflicts = 0, conflict_details = []\<rparr>, db_monday)
   \<and> ingest_row sample_lib ''f.csv'' ''MNQ'' ''tradingview'' row_monday_revised
       (empty_stats, db_monday)
     = Inr (\<lparr>inserted = 0, skipped = 0, conflicts = 1,
             conflict_details =
               [\<lparr>cd_timestamp = 1704747600, cd_reason = ''OHLCV mismatch'', cd_file = ''f.csv'',
                 cd_existing = \<lparr>ohlcv_open = 17000, ohlcv_high = 17010.5, ohlcv_low = 16990.25,
                   ohlcv_close = 17005, ohlcv_volume = 120\<rparr>,
                 cd_new = \<lparr>ohlcv_open = 17000, ohlcv_high = 17010.5, ohlcv_low = 16990.25,
                   ohlcv_close = 17006, ohlcv_volume = 120\<rparr>\<rparr>]\<rparr>, db_monday)
   \<and> ingest_row sample_lib ''f.csv'' ''MNQ'' ''tradingview'' row_halt (empty_stats, db_halt)
     = Inr (\<lparr>inserted = 0, skipped = 1, conflicts = 0, conflict_details = []\<rparr>, db_halt)
   \<and> monday_bar \<in> set (bars db_monday) \<and> halt_bar \<in> set (bars db_halt)"
proof -
  have r1: "resolve_in_file sample_lib ''f.csv'' (p_timestamp parsed_monday) = Inr (Some ''2024-01-08'')"
    and r2: "resolve_in_file sample_lib ''f.csv'' (p_timestamp parsed_revised) = Inr (Some ''2024-01-08'')"
    and r3: "resolve_in_file sample_lib ''f.csv'' (p_timestamp parsed_halt) = Inr None"
    by (simp_all add: sample_timestamps sample_resolve_in_file)
  have e1: "existing_bar (Some 1) (p_timestamp parsed_monday) db_monday = Some monday_bar"
    and e2: "existing_bar (Some 1) (p_timestamp parsed_revised) db_monday = Some monday_bar"
    and e3: "existing_bar None (p_timestamp parsed_halt) db_halt = Some halt_bar"
    by (simp_all add: sample_timestamps monday_bar_found halt_bar_found)
  from ingest_row_existing_bar [OF parse_monday r1 monday_trade_day(1) e1, of empty_stats]
  have 1: "ingest_row sample_lib ''f.csv'' ''MNQ'' ''tradingview'' row_monday (empty_stats, db_monday)
     = Inr (\<lparr>inserted = 0, skipped = 1, conflicts = 0, conflict_details = []\<rparr>, db_monday)"
    and m1: "monday_bar \<in> set (bars db_monday)"
    by (simp_all add: monday_bar_def parsed_monday_def empty_stats_def)
  from ingest_row_existing_bar [OF parse_revised r2 monday_trade_day(1) e2, of empty_stats]
  have 2: "ingest_row sample_lib ''f.csv'' ''MNQ'' ''tradingview'' row_monday_revised
       (empty_stats, db_monday)
     = Inr (\<lparr>inserted = 0, skipped = 0, conflicts = 1,
             conflict_details =
               [\<lparr>cd_timestamp = 1704747600, cd_reason = ''OHLCV mismatch'', cd_file = ''f.csv'',
                 cd_existing = \<lparr>ohlcv_open = 17000, ohlcv_high = 17010.5, ohlcv_low = 16990.25,
                   ohlcv_close = 17005, ohlcv_volume = 120\<rparr>,
                 cd_new = \<lparr>ohlcv_open = 17000, ohlcv_high = 17010.5, ohlcv_low = 16990.25,
                   ohlcv_close = 17006, ohlcv_volume = 120\<rparr>\<rparr>]\<rparr>, db_monday)"
    by (simp add: monday_bar_def parsed_revised_def empty_stats_def)
  from ingest_row_existing_bar [OF parse_halt r3 monday_trade_day(2) e3, of empty_stats]
  have 3: "ingest_row sample_lib ''f.csv'' ''MNQ'' ''tradingview'' row_halt (empty_stats, db_halt)
     = Inr (\<lparr>inserted = 0, skipped = 1, conflicts = 0, conflict_details = []\<rparr>, db_halt)"
    and m3: "halt_bar \<in> set (bars db_halt)"
    by (simp_all add: halt_bar_def parsed_halt_def empty_stats_def)
  from 1 2 3 m1 m3 show ?thesis by blast
qed

text \<open>
  Claim C3, as the specification states it, fails for a batch that holds the
  same record twice: the first pass inserts one bar and skips the duplicate, and
  the second pass skips both, so it skips two records where one was inserted.
\<close>

theorem duplicate_batch_counterexample:
  "\<exists>r1 d1 r2 d2.
     ingest_csv sample_lib [row_monday, row_monday] ''f.csv'' ''MNQ'' ''1m'' ''tradingview''
       init_database = (Inr r1, d1)
   \<and> ingest_csv sample_lib [row_monday, row_monday] ''f.csv'' ''MNQ'' ''1m'' ''tradingview''
       d1 = (Inr r2, d2)
   \<and> inserted r1 = 1 \<and> skipped r2 = 2 \<and> skipped r2 \<noteq> inserted r1"
  using run_duplicate_first [of "''f.csv''" "''1m''"] run_duplicate_second [of "''f.csv''" "''1m''"]
  by simp

text \<open>
  Claim C3, amended. When a batch has been ingested without error, ingesting the
  same batch again into the resulting store inserts nothing and leaves the store
  as it is; it skips as many records as the first pass inserted or skipped, and
  reports as many conflicts as the first pass did. So the second pass skips
  exactly what the first inserted, with no conflict, when the first pass skipped
  nothing and met no conflict.
\<close>

theorem ingest_csv_twice:
  assumes "ingest_csv lib rows f symbol timeframe source d = (Inr r1, d1)"
  shows "\<exists>r2. ingest_csv lib rows f symbol timeframe source d1 = (Inr r2, d1)
           \<and> inserted r2 = 0
           \<and> skipped r2 = inserted r1 + skipped r1
           \<and> conflicts r2 = conflicts r1"
proof -
  from assms have 1: "ingest_rows lib f symbol source rows (empty_stats, d) = Inr (r1, d1)"
    by (auto simp: ingest_csv_def split: sum.splits)
  from ingest_rows_settled [OF 1 appends_to_refl, of empty_stats] obtain r2
    where "ingest_rows lib f symbol source rows (empty_stats, d1) = Inr (r2, d1)"
      and "inserted r2 = inserted empty_stats"
      and "skipped r2 + inserted empty_stats + skipped empty_stats
             = skipped empty_stats + inserted r1 + skipped r1"
      and "conflicts r2 + conflicts empty_stats = conflicts empty_stats + conflicts r1"
    by blast
  then show ?thesis by (simp add: ingest_csv_def empty_stats_def)
qed

text \<open>
  A batch of the Monday bar and the halt bar, ingested twice into the empty store.
\<close>

theorem ingest_csv_twice_witness:
  "ingest_csv sample_lib [row_monday, row_halt] ''f.csv'' ''MNQ'' ''1m'' ''tradingview''
       init_database
     = (Inr \<lparr>inserted = 2, skipped = 0, conflicts = 0, conflict_details = []\<rparr>, db_halt)
   \<and> (\<exists>r2. ingest_csv sample_lib [row_monday, row_halt] ''f.csv'' ''MNQ'' ''1m'' ''tradingview''
             db_halt = (Inr r2, db_halt)
          \<and> inserted r2 = 0 \<and> skipped r2 = 2 \<and> conflicts r2 = 0)"
  using ingest_csv_twice [OF run_two_rows [of "''f.csv''" "''1m''"]]
    run_two_rows [of "''f.csv''" "''1m''"]
  by simp

text \<open>
  Claim C4. When a record of the batch fails, the ingestion returns the error of
  the first failing record and the committed store is the store from before the
  call: nothing that earlier records of the batch inserted is kept. For a
  Saturday record the error holds the timestamp, the local date and time and the
  path of the file; for a record that does not parse it is the error of the
  parser.
\<close>

theorem ingest_csv_all_or_nothing:
  assumes "\<exists>row\<in>set rows. row_fails lib source row"
  shows "\<exists>pre row post e.
           rows = pre @ row # post
         \<and> (\<forall>r\<in>set pre. \<not> row_fails lib source r)
         \<and> row_fails lib source row
         \<and> ingest_csv lib rows f symbol timeframe source d = (Inl e, d)
         \<and> (case parse_row lib source row of
              Inl e' \<Rightarrow> e = e'
            | Inr p \<Rightarrow>
                e = InvalidSession (p_timestamp p)
                      (get_pt_datetime (tz lib) (p_timestamp p)) (Some f))"
proof -
  from assms obtain pre row post where rows: "rows = pre @ row # post"
    and fails: "row_fails lib source row"
    and pre: "\<forall>r\<in>set pre. \<not> row_fails lib source r"
    by (auto dest!: split_list_first_prop)
  from ingest_rows_prefix_ok [OF pre, of f symbol "row # post" "(empty_stats, d)"] rows
  obtain sd' where run: "ingest_rows lib f symbol source rows (empty_stats, d)
      = ingest_rows lib f symbol source (row # post) sd'" by auto
  show ?thesis
  proof (cases "parse_row lib source row")
    case (Inl e')
    from ingest_row_parse_error [OF Inl] run
    have "ingest_csv lib rows f symbol timeframe source d = (Inl e', d)"
      by (simp add: ingest_csv_def and_then_def)
    with rows pre fails Inl
    have "rows = pre @ row # post \<and> (\<forall>r\<in>set pre. \<not> row_fails lib source r)
         \<and> row_fails lib source row
         \<and> ingest_csv lib rows f symbol timeframe source d = (Inl e', d)
         \<and> (case parse_row lib source row of
              Inl e'' \<Rightarrow> e' = e''
            | Inr p \<Rightarrow>
                e' = InvalidSession (p_timestamp p)
                      (get_pt_datetime (tz lib) (p_timestamp p)) (Some f))"
      by simp
    then show ?thesis by blast
  next
    case (Inr p)
    with fails have sat: "is_saturday (tz lib) (p_timestamp p)"
      by (simp add: row_fails_def)
    from ingest_row_saturday [OF Inr sat] run
    have "ingest_csv lib rows f symbol timeframe source d =
        (Inl (InvalidSession (p_timestamp p) (get_pt_datetime (tz lib) (p_timestamp p)) (Some f)), d)"
      by (simp add: ingest_csv_def and_then_def)
    with rows pre fails Inr
    have "rows = pre @ row # post \<and> (\<forall>r\<in>set pre. \<not> row_fails lib source r)
         \<and> row_fails lib source row
         \<and> ingest_csv lib rows f symbol timeframe source d =
             (Inl (InvalidSession (p_timestamp p)
                    (get_pt_datetime (tz lib) (p_timestamp p)) (Some f)), d)
         \<and> (case parse_row lib source row of
              Inl e'' \<Rightarrow>
                InvalidSession (p_timestamp p)
                  (get_pt_datetime (tz lib) (p_timestamp p)) (Some f) = e''
            | Inr p' \<Rightarrow>
                InvalidSession (p_timestamp p)
                  (get_pt_datetime (tz lib) (p_timestamp p)) (Some f) =
                InvalidSession (p_timestamp p')
                      (get_pt_datetime (tz lib) (p_timestamp p')) (Some f))"
      by simp
    then show ?thesis by blast
  qed
qed

text \<open>
  A Saturday record and a malformed record, each after the Monday record, which
  alone would have been inserted.
\<close>

theorem ingest_csv_all_or_nothing_witness:
  "row_fails sample_lib ''tradingview'' row_saturday
   \<and> row_fails sample_lib ''tradingview'' row_malformed
   \<and> ingest_csv sample_lib [row_monday] ''f.csv'' ''MNQ'' ''1m'' ''tradingview'' init_database =
       (Inr \<lparr>inserted = 1, skipped = 0, conflicts = 0, conflict_details = []\<rparr>, db_monday)
   \<and> ingest_csv sample_lib [row_monday, row_saturday] ''f.csv'' ''MNQ'' ''1m'' ''tradingview''
       init_database =
       (Inl (InvalidSession 1705176000
              \<lparr>dt_date = 19735, dt_hour = 12, dt_minute = 0, dt_second = 0\<rparr> (Some ''f.csv'')),
        init_database)
   \<and> ingest_csv sample_lib [row_monday, row_malformed] ''f.csv'' ''MNQ'' ''1m'' ''tradingview''
       init_database = (Inl (ParseError ''abc''), init_database)"
proof -
  have h1: "\<exists>row\<in>set [row_monday, row_saturday]. row_fails sample_lib ''tradingview'' row"
    by (simp add: sample_row_fails)
  have h2: "\<exists>row\<in>set [row_monday, row_malformed]. row_fails sample_lib ''tradingview'' row"
    by (simp add: sample_row_fails)
  from ingest_csv_all_or_nothing [OF h1, of "''f.csv''" "''MNQ''" "''1m''" init_database]
  obtain e1 where "ingest_csv sample_lib [row_monday, row_saturday] ''f.csv'' ''MNQ'' ''1m''
      ''tradingview'' init_database = (Inl e1, init_database)" by blast
  with run_saturday [of "''f.csv''" "''1m''"]
  have 1: "ingest_csv sample_lib [row_monday, row_saturday] ''f.csv'' ''MNQ'' ''1m'' ''tradingview''
       init_database =
       (Inl (InvalidSession 1705176000
              \<lparr>dt_date = 19735, dt_hour = 12, dt_minute = 0, dt_second = 0\<rparr> (Some ''f.csv'')),
        init_database)" by simp
  from ingest_csv_all_or_nothing [OF h2, of "''f.csv''" "''MNQ''" "''1m''" init_database]
  obtain e2 where "ingest_csv sample_lib [row_monday, row_malformed] ''f.csv'' ''MNQ'' ''1m''
      ''tradingview'' init_database = (Inl e2, init_database)" by blast
  with run_malformed [of "''f.csv''" "''1m''"]
  have 2: "ingest_csv sample_lib [row_monday, row_malformed] ''f.csv'' ''MNQ'' ''1m'' ''tradingview''
       init_database = (Inl (ParseError ''abc''), init_database)" by simp
  from 1 2 sample_row_fails(1,2) run_monday [of "''f.csv''" "''1m''"] show ?thesis by blast
qed

text \<open>
  Claim C8. A second \<open>get_or_create_trade_day\<close> with the same key returns the same
  id and leaves the store as the first call left it; a row with that id and key
  is stored. No operation that writes (\<open>get_or_create_trade_day\<close>,
  \<open>ingest_csv\<close>, \<open>save_day_annotation\<close>) changes or removes a stored trade day:
  the table afterwards is the table before with rows appended. The keys of the
  stored trade days are distinct in the empty store, and where they are distinct
  they stay distinct, so no key is ever stored twice.
\<close>

theorem get_or_create_trade_day_idempotent:
  "distinct (map td_key (trade_days init_database))
   \<and> (case get_or_create_trade_day symbol date source d of
      (i, d1) \<Rightarrow>
        get_or_create_trade_day symbol date source d1 = (i, d1)
        \<and> (\<exists>td\<in>set (trade_days d1). td_id td = i \<and> td_key td = (symbol, date, source))
        \<and> (\<exists>tds. trade_days d1 = trade_days d @ tds)
        \<and> (distinct (map td_key (trade_days d)) \<longrightarrow> distinct (map td_key (trade_days d1))))
   \<and> (\<exists>tds. trade_days (snd (ingest_csv lib rows f symbol timeframe source d))
               = trade_days d @ tds)
   \<and> (distinct (map td_key (trade_days d)) \<longrightarrow>
        distinct (map td_key (trade_days (snd (ingest_csv lib rows f symbol timeframe source d)))))
   \<and> (\<exists>tds. trade_days (snd (save_day_annotation symbol date content ty tags src sid now d))
               = trade_days d @ tds)
   \<and> (distinct (map td_key (trade_days d)) \<longrightarrow>
        distinct (map td_key
          (trade_days (snd (save_day_annotation symbol date content ty tags src sid now d)))))"
proof -
  have 0: "distinct (map td_key (trade_days init_database))"
    by (simp add: init_database_def)
  obtain i d1 where g: "get_or_create_trade_day symbol date source d = (i, d1)"
    by (cases "get_or_create_trade_day symbol date source d")
  from get_or_create_appends [OF g] have a: "\<exists>tds. trade_days d1 = trade_days d @ tds"
    by (auto simp: appends_to_def)
  from g get_or_create_again [OF g] get_or_create_row [OF g] a get_or_create_distinct_keys [OF g]
  have 1: "(case get_or_create_trade_day symbol date source d of
      (i, d1) \<Rightarrow>
        get_or_create_trade_day symbol date source d1 = (i, d1)
        \<and> (\<exists>td\<in>set (trade_days d1). td_id td = i \<and> td_key td = (symbol, date, source))
        \<and> (\<exists>tds. trade_days d1 = trade_days d @ tds)
        \<and> (distinct (map td_key (trade_days d)) \<longrightarrow> distinct (map td_key (trade_days d1))))"
    by simp
  obtain j d2 where g2: "get_or_create_trade_day symbol date ''tradingview'' d = (j, d2)"
    by (cases "get_or_create_trade_day symbol date ''tradingview'' d")
  from get_or_create_appends [OF g2] get_or_create_distinct_keys [OF g2] g2
  have 2: "(\<exists>tds. trade_days (snd (save_day_annotation symbol date content ty tags src sid now d))
               = trade_days d @ tds)
   \<and> (distinct (map td_key (trade_days d)) \<longrightarrow>
        distinct (map td_key
          (trade_days (snd (save_day_annotation symbol date content ty tags src sid now d)))))"
    by (auto simp: save_day_annotation_trade_days appends_to_def)
  from 0 1 2 ingest_csv_trade_days [of lib rows f symbol timeframe source d] show ?thesis
    by blast
qed

text \<open>
  The Monday session, looked up twice in the empty store.
\<close>

theorem get_or_create_trade_day_idempotent_witness:
  "get_or_create_trade_day ''MNQ'' ''2024-01-08'' ''tradingview'' init_database = (1, db_session)
   \<and> get_or_create_trade_day ''MNQ'' ''2024-01-08'' ''tradingview'' db_session = (1, db_session)
   \<and> trade_days db_session = trade_days init_database @ [monday_session]
   \<and> distinct (map td_key (trade_days init_database))
   \<and> distinct (map td_key (trade_days db_session))"
proof -
  have d0: "distinct (map td_key (trade_days init_database))"
    by (simp add: init_database_def)
  from get_or_create_trade_day_idempotent [of "''MNQ''" "''2024-01-08''" "''tradingview''"
      init_database sample_lib "[]" "''f.csv''" "''1m''" "''c''" "''observation''" None "''manual''" None 0]
    monday_session_created d0
  have "get_or_create_trade_day ''MNQ'' ''2024-01-08'' ''tradingview'' db_session = (1, db_session)
     \<and> distinct (map td_key (trade_days db_session))" by simp
  with monday_session_created d0 show ?thesis
    by (simp add: db_session_def init_database_def)
qed

section \<open>Properties of the queries\<close>

lemma join_bar_null: "bar_trade_day_id b = None \<Longrightarrow> join_bar tds b = [(b, None)]"
  by (simp add: join_bar_def)

lemma join_bar_mem:
  assumes "(b, Some td) \<in> set (join_bar tds b')"
  shows "bar_trade_day_id b = Some (td_id td)"
proof -
  from assms have "b = b' \<and> td \<in> set (filter (\<lambda>td. bar_trade_day_id b' = Some (td_id td)) tds)"
    by (cases "filter (\<lambda>td. bar_trade_day_id b' = Some (td_id td)) tds")
      (auto simp: join_bar_def)
  then show ?thesis by simp
qed

lemma get_bars_rows_session:
  assumes "r \<in> set (get_bars_rows symbol sd st en include_halt source d)"
  shows "bar_trade_day_id (fst r) \<noteq> None"
proof -
  obtain b tdo where r: "r = (b, tdo)" by (cases r)
  from assms r have m: "(b, tdo) \<in> set (bars_left_join d)"
    and w: "bars_where symbol sd st en include_halt source (b, tdo)"
    by (simp_all add: get_bars_rows_def)
  from w obtain td where t: "tdo = Some td" by (cases tdo) (auto simp: bars_where_def)
  from m t obtain b' where "(b, Some td) \<in> set (join_bar (trade_days d) b')"
    by (auto simp: bars_left_join_def)
  from join_bar_mem [OF this] r show ?thesis by simp
qed

lemma filter_concat_skip:
  assumes "\<And>b. \<not> P b \<Longrightarrow> filter Q (g b) = []"
  shows "filter Q (concat (map g (filter P bs))) = filter Q (concat (map g bs))"
  using assms by (induction bs) auto

text \<open>
  Claim C7. A stored bar without a trade day, as every halt bar is, is in no
  result of \<open>get_bars\<close>, whatever the arguments, \<open>include_halt\<close> included: it is not
  among the selected rows, and the result is the same as on the store without
  such bars.
\<close>

theorem get_bars_excludes_halt_bars:
  assumes "b \<in> set (bars d)" and "bar_trade_day_id b = None"
  shows "b \<notin> fst ` set (get_bars_rows symbol session_date start_date end_date include_halt source d)
       \<and> get_bars symbol session_date start_date end_date timeframe include_halt source d =
         get_bars symbol session_date start_date end_date timeframe include_halt source
           (d\<lparr>bars := filter (\<lambda>x. bar_trade_day_id x \<noteq> None) (bars d)\<rparr>)"
proof -
  have 1: "b \<notin> fst ` set (get_bars_rows symbol session_date start_date end_date include_halt source d)"
  proof
    assume "b \<in> fst ` set (get_bars_rows symbol session_date start_date end_date include_halt source d)"
    then obtain r where "r \<in> set (get_bars_rows symbol session_date start_date end_date include_halt source d)"
      and "fst r = b" by auto
    with get_bars_rows_session [of r] assms(2) show False by simp
  qed
  have skip: "filter (bars_where symbol session_date start_date end_date include_halt source)
          (join_bar (trade_days d) x) = []"
    if "\<not> bar_trade_day_id x \<noteq> None" for x
    using that by (simp add: join_bar_null bars_where_def)
  have "filter (bars_where symbol session_date start_date end_date include_halt source)
      (concat (map (join_bar (trade_days d)) (filter (\<lambda>x. bar_trade_day_id x \<noteq> None) (bars d))))
    = filter (bars_where symbol session_date start_date end_date include_halt source)
      (concat (map (join_bar (trade_days d)) (bars d)))"
    using skip by (rule filter_concat_skip)
  then have 2: "get_bars symbol session_date start_date end_date timeframe include_halt source d =
         get_bars symbol session_date start_date end_date timeframe include_halt source
           (d\<lparr>bars := filter (\<lambda>x. bar_trade_day_id x \<noteq> None) (bars d)\<rparr>)"
    by (simp add: get_bars_def get_bars_rows_def bars_left_join_def)
  from 1 2 show ?thesis by blast
qed

text \<open>
  The store with the Monday bar and the halt bar, queried with \<open>include_halt\<close>.
\<close>

theorem get_bars_excludes_halt_bars_witness:
  "halt_bar \<in> set (bars db_halt) \<and> bar_trade_day_id halt_bar = None
   \<and> bar_halt_period halt_bar = 1
   \<and> halt_bar \<notin> fst ` set (get_bars_rows ''MNQ'' None None None True ''tradingview'' db_halt)
   \<and> get_bars ''MNQ'' None None None None True ''tradingview'' db_halt =
       get_bars ''MNQ'' None None None None True ''tradingview'' db_monday"
proof -
  have m: "halt_bar \<in> set (bars db_halt)" by (simp add: db_halt_def)
  have n: "bar_trade_day_id halt_bar = None" and h: "bar_halt_period halt_bar = 1"
    by (simp_all add: halt_bar_def)
  have f: "db_halt\<lparr>bars := filter (\<lambda>x. bar_trade_day_id x \<noteq> None) (bars db_halt)\<rparr> = db_monday"
    by (simp add: db_halt_def db_monday_def halt_bar_def monday_bar_def)
  from get_bars_excludes_halt_bars [OF m n, of "''MNQ''" None None None True "''tradingview''" None]
    f m n h show ?thesis by simp
qed

lemma tags_match_none: "tags_match None r"
  by (simp add: tags_match_def truthy_def)

lemma tags_match_some:
  "tags \<noteq> [] \<Longrightarrow> tags_match (Some tags) r \<longleftrightarrow> (\<exists>tag\<in>set tags. tag \<in> set (ann_tags (fst r)))"
  by (simp add: tags_match_def truthy_def list_ex_iff)

lemma ar_tags_result: "ar_tags (annotation_result_of r) = ann_tags (fst r)"
  by (cases r) (simp add: annotation_result_of_def)

text \<open>
  Claim C9. For a non-empty list of requested tags, an annotation passes the tag
  filter exactly when it holds at least one of them, and the query with the
  filter returns those results of the query without it that hold at least one
  requested tag.
\<close>

theorem tag_filter_any:
  assumes "tags \<noteq> []"
  shows "(tags_match (Some tags) (a, td) \<longleftrightarrow> (\<exists>tag\<in>set tags. tag \<in> set (ann_tags a)))
       \<and> get_day_annotations symbol start_date end_date (Some tags) status annotation_type d =
           filter (\<lambda>r. \<exists>tag\<in>set tags. tag \<in> set (ar_tags r))
             (get_day_annotations symbol start_date end_date None status annotation_type d)"
proof -
  have m: "tags_match (Some tags) = (\<lambda>r. \<exists>tag\<in>set tags. tag \<in> set (ann_tags (fst r)))"
    using assms by (intro ext) (simp add: tags_match_some)
  have n: "filter (tags_match None) xs = xs" for xs
    by (simp add: tags_match_none)
  show ?thesis
    by (simp add: get_day_annotations_def filter_map comp_def m n ar_tags_result)
qed

text \<open>
  An annotation tagged momentum and trend\_day passes the filter for trend\_day or
  reversal, though it does not hold reversal.
\<close>

theorem tag_filter_any_witness:
  "[''trend_day'', ''reversal''] \<noteq> ([] :: string list)
   \<and> ann_tags note_a = [''momentum'', ''trend_day'']
   \<and> tags_match (Some [''trend_day'', ''reversal'']) (note_a, monday_session)
   \<and> ''reversal'' \<notin> set (ann_tags note_a)
   \<and> get_day_annotations ''MNQ'' ''2024-01-08'' ''2024-01-08'' (Some [''trend_day'', ''reversal''])
       ''active'' None db_noted = [result_a]"
proof -
  have ne: "[''trend_day'', ''reversal''] \<noteq> ([] :: string list)" by simp
  have tg: "ann_tags note_a = [''momentum'', ''trend_day'']" by (simp add: note_a_def)
  have q: "get_day_annotations ''MNQ'' ''2024-01-08'' ''2024-01-08'' None ''active'' None db_noted
      = [result_a]" by (simp add: query_noted)
  have rt: "ar_tags result_a = [''momentum'', ''trend_day'']" by (simp add: result_a_def)
  from tag_filter_any [OF ne, of note_a monday_session "''MNQ''" "''2024-01-08''" "''2024-01-08''"
              "''active''" None db_noted] q tg rt
  show ?thesis by simp
qed

section \<open>Properties of the annotations\<close>

lemma mark_superseded_last:
  "ann_trade_day_id (last (mark_superseded i (xs @ [a]))) = ann_trade_day_id a
   \<and> ann_id (last (mark_superseded i (xs @ [a]))) = ann_id a
   \<and> ann_source (last (mark_superseded i (xs @ [a]))) = ann_source a"
  by (simp add: mark_superseded_def)

text \<open>
  Claim C10. The annotation that \<open>save_day_annotation\<close> inserts carries the
  \<open>source\<close> argument, and its trade day is the one that
  \<open>get_or_create_trade_day\<close> returns for the source \<^verbatim>\<open>"tradingview"\<close>: a stored
  trade day has that id, and every stored trade day with that id has the symbol
  and the date of the call and the source \<^verbatim>\<open>"tradingview"\<close>.
\<close>

theorem save_day_annotation_session_source:
  assumes "distinct (map td_id (trade_days d))"
    and "save_day_annotation symbol session_date content annotation_type tags source
           supersedes_id now d = (annotation_id, d')"
  shows "ann_id (last (day_annotations d')) = annotation_id
       \<and> ann_source (last (day_annotations d')) = source
       \<and> ann_trade_day_id (last (day_annotations d'))
           = fst (get_or_create_trade_day symbol session_date ''tradingview'' d)
       \<and> (\<exists>td\<in>set (trade_days d'). td_id td = ann_trade_day_id (last (day_annotations d')))
       \<and> (\<forall>td\<in>set (trade_days d').
             td_id td = ann_trade_day_id (last (day_annotations d')) \<longrightarrow>
             td_symbol td = symbol \<and> td_session_date td = session_date
             \<and> td_source td = ''tradingview'')"
proof -
  obtain tid d1 where g: "get_or_create_trade_day symbol session_date ''tradingview'' d = (tid, d1)"
    by (cases "get_or_create_trade_day symbol session_date ''tradingview'' d")
  define a where "a = new_annotation (next_rowid (map ann_id (day_annotations d1))) tid content
      annotation_type tags source supersedes_id now"
  from save_day_annotation_eq [OF g, of content annotation_type tags source supersedes_id now] assms(2)
  have aid: "annotation_id = next_rowid (map ann_id (day_annotations d1))"
    and d': "d' = d1\<lparr>day_annotations :=
           (if truthy_int supersedes_id then mark_superseded (the supersedes_id) else (\<lambda>x. x))
             (day_annotations d1 @ [a])\<rparr>"
    by (simp_all add: a_def)
  from d' have td': "trade_days d' = trade_days d1" by simp
  from d' have anns: "day_annotations d' =
      (if truthy_int supersedes_id then mark_superseded (the supersedes_id) else (\<lambda>x. x))
             (day_annotations d1 @ [a])" by simp
  have l1: "ann_id (last (day_annotations d')) = ann_id a"
    and l2: "ann_source (last (day_annotations d')) = ann_source a"
    and l3: "ann_trade_day_id (last (day_annotations d')) = ann_trade_day_id a"
    unfolding anns by (simp_all add: mark_superseded_last)
  have a1: "ann_id a = annotation_id" and a2: "ann_source a = source"
    and a3: "ann_trade_day_id a = tid"
    by (simp_all add: a_def new_annotation_def aid)
  from get_or_create_row [OF g] obtain td0 where td0: "td0 \<in> set (trade_days d1)"
    "td_id td0 = tid" "td_key td0 = (symbol, session_date, ''tradingview'')" by blast
  from get_or_create_distinct_ids [OF g assms(1)] have dis: "distinct (map td_id (trade_days d1))" .
  have u: "td = td0" if "td \<in> set (trade_days d1)" "td_id td = tid" for td
    using that td0(1,2) dis by (auto simp: distinct_map inj_on_def)
  have all: "\<forall>td\<in>set (trade_days d1). td_id td = tid \<longrightarrow>
             td_symbol td = symbol \<and> td_session_date td = session_date
             \<and> td_source td = ''tradingview''"
  proof (intro ballI impI)
    fix td assume "td \<in> set (trade_days d1)" "td_id td = tid"
    then have "td = td0" by (rule u)
    with td0(3) show "td_symbol td = symbol \<and> td_session_date td = session_date
             \<and> td_source td = ''tradingview''" by (simp add: td_key_def)
  qed
  from td0(1,2) have ex: "\<exists>td\<in>set (trade_days d1). td_id td = tid" by blast
  from l1 l2 l3 a1 a2 a3 g td' all ex show ?thesis by simp
qed

text \<open>
  An annotation of source manual, saved into the empty store.
\<close>

theorem save_day_annotation_session_source_witness:
  "distinct (map td_id (trade_days init_database))
   \<and> save_day_annotation ''MNQ'' ''2024-01-08'' ''Test observation'' ''observation''
        (Some [''momentum'', ''trend_day'']) ''manual'' None 5 init_database = (1, db_noted)
   \<and> ann_source (last (day_annotations db_noted)) = ''manual''
   \<and> ann_trade_day_id (last (day_annotations db_noted)) = 1
   \<and> trade_days db_noted = [monday_session]
   \<and> td_id monday_session = 1 \<and> td_source monday_session = ''tradingview''"
proof -
  have d0: "distinct (map td_id (trade_days init_database))" by (simp add: init_database_def)
  from save_day_annotation_session_source [OF d0 save_note_a] monday_session_created
  have "ann_source (last (day_annotations db_noted)) = ''manual''
      \<and> ann_trade_day_id (last (day_annotations db_noted)) = 1" by simp
  with d0 save_note_a show ?thesis by (simp add: db_noted_def monday_session_def)
qed

lemma join_annotation_mark:
  "join_annotation tds (mark_one i x) = map (apfst (mark_one i)) (join_annotation tds x)"
  by (simp add: join_annotation_def mark_one_def)

lemma join_annotation_old:
  assumes "ann_trade_day_id x \<in> td_id ` set tds"
    and "\<forall>td\<in>set new. td_id td \<notin> td_id ` set tds"
  shows "join_annotation (tds @ new) x = join_annotation tds x"
proof -
  from assms have "filter (\<lambda>td. ann_trade_day_id x = td_id td) new = []"
    by (auto simp: filter_empty_conv)
  then show ?thesis by (simp add: join_annotation_def)
qed

lemma filter_distinct_key:
  "distinct (map f xs) \<Longrightarrow> x \<in> set xs \<Longrightarrow> filter (\<lambda>y. f x = f y) xs = [x]"
proof (induction xs)
  case Nil
  then show ?case by simp
next
  case (Cons y ys)
  show ?case
  proof (cases "x = y")
    case True
    with Cons.prems have "\<forall>z\<in>set ys. f x \<noteq> f z" by auto
    then have "filter (\<lambda>y. f x = f y) ys = []" by (simp add: filter_empty_conv)
    with True show ?thesis by simp
  next
    case False
    with Cons.prems have m: "x \<in> set ys" and d: "distinct (map f ys)" by auto
    from Cons.prems have "f y \<notin> f ` set ys" by simp
    moreover from m have "f x \<in> f ` set ys" by (rule imageI)
    ultimately have "f x \<noteq> f y" by metis
    with Cons.IH [OF d m] show ?thesis by simp
  qed
qed

lemma concat_join_old:
  assumes "\<forall>x\<in>set anns. ann_trade_day_id x \<in> td_id ` set tds"
    and "\<forall>td\<in>set new. td_id td \<notin> td_id ` set tds"
  shows "concat (map (join_annotation (tds @ new)) (map (mark_one i) anns))
       = map (apfst (mark_one i)) (concat (map (join_annotation tds) anns))"
  using assms(1)
proof (induction anns)
  case Nil
  show ?case by simp
next
  case (Cons x anns)
  then have x: "ann_trade_day_id x \<in> td_id ` set tds" by simp
  have "join_annotation (tds @ new) (mark_one i x)
      = map (apfst (mark_one i)) (join_annotation tds x)"
    by (simp add: join_annotation_mark join_annotation_old [OF x assms(2)])
  with Cons show ?case by simp
qed

lemma annotations_where_status:
  "status \<noteq> ''all'' \<Longrightarrow>
   annotations_where symbol s e status None r \<longleftrightarrow>
     annotations_where symbol s e ''all'' None r \<and> ann_status (fst r) = status"
  by (cases r) (auto simp: annotations_where_def truthy_def)

lemma annotations_where_mark:
  "annotations_where symbol s e ''all'' None (apfst (mark_one i) r)
     = annotations_where symbol s e ''all'' None r"
  by (cases r) (simp add: annotations_where_def truthy_def mark_one_def)

lemma get_day_annotations_rows:
  "get_day_annotations symbol s e None status ty d =
     map annotation_result_of (annotation_rows symbol s e status ty d)"
  by (simp add: get_day_annotations_def tags_match_def truthy_def)

lemma singleton_rows:
  assumes "map g (sort_key k xs) = [y]"
  shows "\<exists>x. xs = [x] \<and> g x = y"
proof -
  from assms have "length (sort_key k xs) = 1"
    using length_map [of g "sort_key k xs"] by simp
  then have "length xs = 1" by simp
  then obtain x where x: "xs = [x]" by (cases xs) auto
  with assms show ?thesis by simp
qed

text \<open>
  Claim C6. In a consistent store where annotation A is the only annotation of
  the symbol in a date range, saving annotation B for the same symbol and a date
  in the range, with A's id as \<open>supersedes_id\<close>, gives one store in which B is
  stored with status active and every row with A's id has status superseded;
  there the query for status active over the range returns exactly B, and the
  query for status superseded returns exactly A, with its new status.
\<close>

theorem supersede_queries:
  assumes c: "db_consistent d"
    and q: "get_day_annotations symbol start_date end_date None ''all'' None d = [ra]"
    and range: "start_date \<le> session_date" "session_date \<le> end_date"
    and sv: "save_day_annotation symbol session_date content annotation_type tags source
           (Some (ar_id ra)) now d = (b, d')"
  shows "(\<exists>x\<in>set (day_annotations d'). ann_id x = b \<and> ann_status x = ''active'')
       \<and> (\<forall>x\<in>set (day_annotations d'). ann_id x = ar_id ra \<longrightarrow> ann_status x = ''superseded'')
       \<and> get_day_annotations symbol start_date end_date None ''active'' None d' =
           [\<lparr>ar_id = b, ar_session_date = session_date, ar_annotation_type = annotation_type,
             ar_content = content, ar_tags = (if truthy tags then the tags else []),
             ar_source = source, ar_created_at = now, ar_supersedes_id = Some (ar_id ra),
             ar_status = ''active''\<rparr>]
       \<and> get_day_annotations symbol start_date end_date None ''superseded'' None d' =
           [ra\<lparr>ar_status := ''superseded''\<rparr>]"
proof -
  let ?all = "annotations_where symbol start_date end_date ''all'' None"
  let ?k = "\<lambda>r. (td_session_date (snd r), ann_created_at (fst r))"
  let ?J = "annotations_join d"
  let ?a = "ar_id ra"
  \<comment> \<open>the one annotation in range before the save\<close>
  from q have "map annotation_result_of (sort_key ?k (filter ?all ?J)) = [ra]"
    by (simp add: get_day_annotations_rows annotation_rows_def)
  from singleton_rows [OF this] obtain r0 where F: "filter ?all ?J = [r0]"
    and r0: "annotation_result_of r0 = ra" by blast
  obtain A tdA where r0p: "r0 = (A, tdA)" by (cases r0)
  from r0 r0p have idA: "ann_id A = ?a" by (auto simp: annotation_result_of_def)
  have "set (filter ?all ?J) \<subseteq> set ?J" by simp
  with F have "r0 \<in> set ?J" by auto
  with r0p have "A \<in> set (day_annotations d)"
    by (auto simp: annotations_join_def join_annotation_def)
  then have Amem: "A \<in> set (day_annotations d)" .
  with idA have amem: "?a \<in> set (map ann_id (day_annotations d))" by force
  from c Amem idA have nz: "?a \<noteq> 0" by (auto simp: db_consistent_def)
  \<comment> \<open>the store after the save\<close>
  obtain tid d1 where g: "get_or_create_trade_day symbol session_date ''tradingview'' d = (tid, d1)"
    by (cases "get_or_create_trade_day symbol session_date ''tradingview'' d")
  from get_or_create_frame [OF g] have anns1: "day_annotations d1 = day_annotations d" by simp
  define B where "B = new_annotation b tid content annotation_type tags source (Some ?a) now"
  from save_day_annotation_eq [OF g, of content annotation_type tags source "Some ?a" now] sv nz anns1
  have b: "b = next_rowid (map ann_id (day_annotations d))"
    and d': "d' = d1\<lparr>day_annotations := mark_superseded ?a (day_annotations d @ [B])\<rparr>"
    by (simp_all add: truthy_int_def B_def)
  from next_rowid_fresh [OF amem] b have nB: "ann_id B \<noteq> ?a"
    by (simp add: B_def new_annotation_def)
  then have markB: "mark_one ?a B = B" by (simp add: mark_one_def)
  from get_or_create_new_ids [OF g] obtain new
    where tds1: "trade_days d1 = trade_days d @ new"
      and fresh: "\<forall>td\<in>set new. td_id td \<notin> td_id ` set (trade_days d)" by blast
  from c have fk: "\<forall>x\<in>set (day_annotations d). ann_trade_day_id x \<in> td_id ` set (trade_days d)"
    and dis: "distinct (map td_id (trade_days d))" by (simp_all add: db_consistent_def)
  from get_or_create_row [OF g] obtain tdB where tdB: "tdB \<in> set (trade_days d1)"
    "td_id tdB = tid" "td_key tdB = (symbol, session_date, ''tradingview'')" by blast
  from get_or_create_distinct_ids [OF g dis] have dis1: "distinct (map td_id (trade_days d1))" .
  from filter_distinct_key [OF dis1 tdB(1)] tdB(2)
  have "filter (\<lambda>td. tid = td_id td) (trade_days d1) = [tdB]" by simp
  then have joinB: "join_annotation (trade_days d1) B = [(B, tdB)]"
    by (simp add: join_annotation_def B_def new_annotation_def)
  from d' have "annotations_join d' =
      concat (map (join_annotation (trade_days d1)) (map (mark_one ?a) (day_annotations d)))
      @ join_annotation (trade_days d1) (mark_one ?a B)"
    by (simp add: annotations_join_def mark_superseded_map)
  with concat_join_old [OF fk fresh, of ?a] tds1 markB joinB
  have J': "annotations_join d' = map (apfst (mark_one ?a)) ?J @ [(B, tdB)]"
    by (simp add: annotations_join_def)
  \<comment> \<open>the rows in range after the save\<close>
  have "filter ?all (map (apfst (mark_one ?a)) ?J) = map (apfst (mark_one ?a)) (filter ?all ?J)"
    by (simp add: filter_map comp_def annotations_where_mark)
  with F r0p have old: "filter ?all (map (apfst (mark_one ?a)) ?J) = [(mark_one ?a A, tdA)]"
    by simp
  from idA have mA: "mark_one ?a A = A\<lparr>ann_status := ''superseded''\<rparr>"
    by (simp add: mark_one_def)
  from tdB(3) range have allB: "?all (B, tdB)"
    by (simp add: annotations_where_def td_key_def truthy_def)
  from J' old allB mA have Fall: "filter ?all (annotations_join d') =
      [(A\<lparr>ann_status := ''superseded''\<rparr>, tdA), (B, tdB)]" by simp
  have split: "filter (annotations_where symbol start_date end_date status None) xs
      = filter (\<lambda>r. ann_status (fst r) = status) (filter ?all xs)"
    if "status \<noteq> ''all''" for status xs
    using that by (induction xs) (simp_all add: annotations_where_status)
  have stB: "ann_status B = ''active''" by (simp add: B_def new_annotation_def)
  from split [of "''active''" "annotations_join d'"] Fall stB
  have act: "filter (annotations_where symbol start_date end_date ''active'' None)
      (annotations_join d') = [(B, tdB)]" by simp
  from split [of "''superseded''" "annotations_join d'"] Fall stB
  have sup: "filter (annotations_where symbol start_date end_date ''superseded'' None)
      (annotations_join d') = [(A\<lparr>ann_status := ''superseded''\<rparr>, tdA)]" by simp
  from r0 r0p have resA: "annotation_result_of (A\<lparr>ann_status := ''superseded''\<rparr>, tdA)
      = ra\<lparr>ar_status := ''superseded''\<rparr>"
    by (auto simp: annotation_result_of_def)
  from tdB(3) have resB: "annotation_result_of (B, tdB) =
      \<lparr>ar_id = b, ar_session_date = session_date, ar_annotation_type = annotation_type,
             ar_content = content, ar_tags = (if truthy tags then the tags else []),
             ar_source = source, ar_created_at = now, ar_supersedes_id = Some (ar_id ra),
             ar_status = ''active''\<rparr>"
    by (simp add: annotation_result_of_def B_def new_annotation_def td_key_def)
  have Bmem: "B \<in> set (day_annotations d')"
    using markB by (simp add: d' mark_superseded_map)
  have "ann_id B = b" by (simp add: B_def new_annotation_def)
  with Bmem stB have stored_b: "\<exists>x\<in>set (day_annotations d'). ann_id x = b \<and> ann_status x = ''active''"
    by blast
  have stored_a: "\<forall>x\<in>set (day_annotations d'). ann_id x = ?a \<longrightarrow> ann_status x = ''superseded''"
    using nB by (auto simp: d' mark_superseded_map mark_one_def)
  from act sup resA resB
  have "get_day_annotations symbol start_date end_date None ''active'' None d' =
           [\<lparr>ar_id = b, ar_session_date = session_date, ar_annotation_type = annotation_type,
             ar_content = content, ar_tags = (if truthy tags then the tags else []),
             ar_source = source, ar_created_at = now, ar_supersedes_id = Some (ar_id ra),
             ar_status = ''active''\<rparr>]
       \<and> get_day_annotations symbol start_date end_date None ''superseded'' None d' =
           [ra\<lparr>ar_status := ''superseded''\<rparr>]"
    by (simp add: get_day_annotations_rows annotation_rows_def)
  with stored_a stored_b show ?thesis by blast
qed

text \<open>
  The annotation of the Monday session and its successor.
\<close>

theorem supersede_queries_witness:
  "db_consistent db_noted
   \<and> get_day_annotations ''MNQ'' ''2024-01-08'' ''2024-01-08'' None ''all'' None db_noted
       = [result_a]
   \<and> save_day_annotation ''MNQ'' ''2024-01-08'' ''Updated observation'' ''observation''
       (Some [''updated'']) ''manual'' (Some (ar_id result_a)) 6 db_noted = (2, db_superseded)
   \<and> get_day_annotations ''MNQ'' ''2024-01-08'' ''2024-01-08'' None ''active'' None db_superseded
       = [result_b]
   \<and> get_day_annotations ''MNQ'' ''2024-01-08'' ''2024-01-08'' None ''superseded'' None
       db_superseded = [result_a\<lparr>ar_status := ''superseded''\<rparr>]"
proof -
  have q: "get_day_annotations ''MNQ'' ''2024-01-08'' ''2024-01-08'' None ''all'' None db_noted
       = [result_a]" by (simp add: query_noted)
  have r: "(''2024-01-08'' :: string) \<le> ''2024-01-08''" by simp
  have sv: "save_day_annotation ''MNQ'' ''2024-01-08'' ''Updated observation'' ''observation''
       (Some [''updated'']) ''manual'' (Some (ar_id result_a)) 6 db_noted = (2, db_superseded)"
    using save_note_b by (simp add: result_a_def)
  from supersede_queries [OF db_noted_consistent q r r sv]
  have "get_day_annotations ''MNQ'' ''2024-01-08'' ''2024-01-08'' None ''active'' None db_superseded
       = [result_b]
   \<and> get_day_annotations ''MNQ'' ''2024-01-08'' ''2024-01-08'' None ''superseded'' None
       db_superseded = [result_a\<lparr>ar_status := ''superseded''\<rparr>]"
    by (simp add: result_b_def result_a_def truthy_def)
  with q sv db_noted_consistent show ?thesis by blast
qed

end
